theory Spec2Isabelle
  imports Complex_Main
begin

section \<open>Python values\<close>

text \<open>
  The bulk tester \<^verbatim>\<open>mm_geo_test_logger.py\<close> is dynamically typed: an address is whatever a
  DataFrame cell holds, the geocoder may hand back a value of any shape, and the code decides
  by truthiness, \<^verbatim>\<open>is None\<close> and \<^verbatim>\<open>isinstance\<close>. The values are therefore modelled by a
  datatype of Python objects.

  A \<open>scalar\<close> is what one cell of the address column can hold. \<open>SNaN\<close> is the float
  \<^verbatim>\<open>nan\<close> that pandas stores for an empty field; every other float is the rational number
  it denotes (only comparison with zero and equality are ever used). Strings are byte lists:
  a character beyond ASCII stands as its UTF-8 bytes, which leaves substring search and
  splitting at \<^verbatim>\<open>:\<close> unchanged.

  A dictionary is an association list; \<open>map_of\<close> reads it, so that the first binding of a
  key counts (a Python dictionary holds each key once).
\<close>

datatype scalar = SNone | SNaN | SBool bool | SInt int | SFloat rat | SStr string

datatype pyval =
    Scalar scalar
  | PList "pyval list"
  | PTuple "pyval list"
  | PDict "(string \<times> pyval) list"

abbreviation PNone :: pyval where
  "PNone \<equiv> Scalar SNone"

text \<open>\<^verbatim>\<open>bool(x)\<close>: the empty string, zero, \<^verbatim>\<open>None\<close>, \<^verbatim>\<open>False\<close> and the empty containers
  are falsy; \<^verbatim>\<open>nan\<close> is truthy.\<close>

fun truthy_scalar :: "scalar \<Rightarrow> bool" where
  "truthy_scalar SNone = False"
| "truthy_scalar SNaN = True"
| "truthy_scalar (SBool b) = b"
| "truthy_scalar (SInt i) = (i \<noteq> 0)"
| "truthy_scalar (SFloat r) = (r \<noteq> 0)"
| "truthy_scalar (SStr s) = (s \<noteq> [])"

fun truthy :: "pyval \<Rightarrow> bool" where
  "truthy (Scalar s) = truthy_scalar s"
| "truthy (PList xs) = (xs \<noteq> [])"
| "truthy (PTuple xs) = (xs \<noteq> [])"
| "truthy (PDict d) = (d \<noteq> [])"

text \<open>\<^verbatim>\<open>pd.isna\<close> on a scalar.\<close>

fun isna :: "scalar \<Rightarrow> bool" where
  "isna SNone = True"
| "isna SNaN = True"
| "isna _ = False"

text \<open>\<^verbatim>\<open>type(x).__name__\<close>, as it appears in the message of an \<^verbatim>\<open>AttributeError\<close>.\<close>

fun type_name :: "pyval \<Rightarrow> string" where
  "type_name (Scalar SNone) = ''NoneType''"
| "type_name (Scalar SNaN) = ''float''"
| "type_name (Scalar (SBool b)) = ''bool''"
| "type_name (Scalar (SInt i)) = ''int''"
| "type_name (Scalar (SFloat r)) = ''float''"
| "type_name (Scalar (SStr s)) = ''str''"
| "type_name (PList xs) = ''list''"
| "type_name (PTuple xs) = ''tuple''"
| "type_name (PDict d) = ''dict''"

fun is_dict :: "pyval \<Rightarrow> bool" where
  "is_dict (PDict d) = True"
| "is_dict _ = False"

fun is_list :: "pyval \<Rightarrow> bool" where
  "is_list (PList xs) = True"
| "is_list _ = False"

subsection \<open>Exceptions\<close>

text \<open>
  An exception is an instance of \<^verbatim>\<open>Exception\<close>: its class name and \<^verbatim>\<open>str(e)\<close>. These are
  the exceptions the handler \<^verbatim>\<open>except Exception as e\<close> of \<^verbatim>\<open>get_location\<close> catches; the
  interrupts outside that class (\<^verbatim>\<open>KeyboardInterrupt\<close>, \<^verbatim>\<open>SystemExit\<close>) stop the program
  and are not modelled.
  A function that can raise returns \<open>exn + 'a\<close>, with \<open>Inl\<close> for the exception.
\<close>

datatype exn = Exn (exn_class: string) (exn_str: string)

definition bind_exn :: "exn + 'a \<Rightarrow> ('a \<Rightarrow> exn + 'b) \<Rightarrow> exn + 'b" where
  "bind_exn m f = (case m of Inl e \<Rightarrow> Inl e | Inr x \<Rightarrow> f x)"

definition quoted :: "string \<Rightarrow> string" where
  "quoted s = CHR 0x27 # s @ [CHR 0x27]"

text \<open>\<^verbatim>\<open>x.get(k)\<close>: the value stored under \<open>k\<close>, or \<^verbatim>\<open>None\<close>, when \<open>x\<close> is a dictionary;
  an \<^verbatim>\<open>AttributeError\<close> for every other value of the model.\<close>

definition dict_get :: "(string \<times> pyval) list \<Rightarrow> string \<Rightarrow> pyval" where
  "dict_get d k = (case map_of d k of None \<Rightarrow> PNone | Some v \<Rightarrow> v)"

fun py_get :: "pyval \<Rightarrow> string \<Rightarrow> exn + pyval" where
  "py_get (PDict d) k = Inr (dict_get d k)"
| "py_get v k =
     Inl (Exn ''AttributeError''
            (quoted (type_name v) @ '' object has no attribute '' @ quoted ''get''))"

subsection \<open>String operations\<close>

text \<open>\<^verbatim>\<open>sub in s\<close> on strings.\<close>

fun starts_with :: "string \<Rightarrow> string \<Rightarrow> bool" where
  "starts_with s [] = True"
| "starts_with [] (p # ps) = False"
| "starts_with (c # cs) (p # ps) = (c = p \<and> starts_with cs ps)"

fun str_contains :: "string \<Rightarrow> string \<Rightarrow> bool" where
  "str_contains sub [] = (sub = [])"
| "str_contains sub (c # cs) = (starts_with (c # cs) sub \<or> str_contains sub cs)"

text \<open>\<^verbatim>\<open>s.split(sep)\<close> for a separator of one character: never the empty list.\<close>

fun split_on :: "char \<Rightarrow> string \<Rightarrow> string list" where
  "split_on sep [] = [[]]"
| "split_on sep (c # cs) =
     (if c = sep then [] # split_on sep cs
      else (case split_on sep cs of
              w # ws \<Rightarrow> (c # w) # ws
            | [] \<Rightarrow> [[c]]))"

text \<open>\<^verbatim>\<open>sep.join(xs)\<close>.\<close>

fun join :: "string \<Rightarrow> string list \<Rightarrow> string" where
  "join sep [] = []"
| "join sep [x] = x"
| "join sep (x # y # ys) = x @ sep @ join sep (y # ys)"

section \<open>The error classifier\<close>

text \<open>
  \<^verbatim>\<open>classify_error(result, exception_msg=None)\<close>. The message is \<^verbatim>\<open>None\<close> or a string;
  \<^verbatim>\<open>if exception_msg:\<close> holds for a string that is not empty.
\<close>

fun truthy_msg :: "string option \<Rightarrow> bool" where
  "truthy_msg None = False"
| "truthy_msg (Some m) = (m \<noteq> [])"

definition required_fields :: "string list" where
  "required_fields = [''address'', ''lat'', ''log'', ''pcode'']"

definition classify_error :: "pyval \<Rightarrow> string option \<Rightarrow> string" where
  "classify_error result exception_msg =
     (case (if truthy_msg exception_msg then exception_msg else None) of
        Some msg \<Rightarrow>
          (if str_contains ''Traceback'' msg \<or> str_contains ''Error'' msg then ''Crash''
           else hd (split_on (CHR '':'') msg))
      | None \<Rightarrow>
          (if result = PNone then ''None returned''
           else if \<not> is_dict result then ''Wrong format''
           else if list_ex (\<lambda>k. py_get result k = Inr PNone) required_fields
                then ''Missing fields''
           else ''No error''))"

section \<open>The single-address resolver\<close>

text \<open>
  The geocoder \<^verbatim>\<open>MMGeoCoder(address).get_geolocation()\<close> is not part of the repository. It is
  a parameter: for an address it returns a value of any shape or raises.
\<close>

datatype adapter_result = Returns pyval | Raises exn

type_synonym adapter = "scalar \<Rightarrow> adapter_result"

text \<open>
  The body of the \<^verbatim>\<open>try\<close> block of \<^verbatim>\<open>get_location\<close>. The list \<open>calls\<close> logs the addresses
  the geocoder has been invoked with; it grows by one exactly when line 48 is reached.
\<close>

definition get_location_try ::
  "adapter \<Rightarrow> scalar \<Rightarrow> scalar list \<Rightarrow> (exn + pyval \<times> string option) \<times> scalar list" where
  "get_location_try geocoder address calls =
     (if \<not> truthy_scalar address \<or> isna address then (Inr (PNone, Some ''Empty input''), calls)
      else
        (case geocoder address of
           Raises e \<Rightarrow> (Inl e, calls @ [address])
         | Returns result \<Rightarrow>
             (if \<not> truthy result \<or> \<not> is_list result
                 \<or> (case result of PList xs \<Rightarrow> length xs = 0 | _ \<Rightarrow> False)
              then Inr (PNone, Some ''No result'')
              else
                (case result of
                   PList (first # rest) \<Rightarrow>
                     bind_exn (py_get first ''address'') (\<lambda>a.
                     bind_exn (py_get first ''pcode'') (\<lambda>p.
                     bind_exn (py_get first ''latitude'') (\<lambda>la.
                     bind_exn (py_get first ''longitude'') (\<lambda>lo.
                       Inr (PDict [(''address'', a), (''pcode'', p), (''lat'', la), (''log'', lo)],
                            None)))))
                 | _ \<Rightarrow> Inl (Exn ''IndexError'' ''list index out of range'')),
              calls @ [address])))"

text \<open>The handler \<^verbatim>\<open>except Exception as e: return None, str(e)\<close> around that body.\<close>

definition get_location ::
  "adapter \<Rightarrow> scalar \<Rightarrow> scalar list \<Rightarrow> (pyval \<times> string option) \<times> scalar list" where
  "get_location geocoder address calls =
     (case get_location_try geocoder address calls of
        (Inl e, calls') \<Rightarrow> ((PNone, Some (exn_str e)), calls')
      | (Inr outcome, calls') \<Rightarrow> (outcome, calls'))"

section \<open>The batch runner\<close>

subsection \<open>Report rows\<close>

text \<open>
  One dictionary appended to \<^verbatim>\<open>log_rows\<close>, a field for each of its keys. The two clock
  readings (\<^verbatim>\<open>DateTime\<close>, \<^verbatim>\<open>Duration (sec)\<close>) are supplied by the environment.
\<close>

record report_row =
  test_case_id :: string
  date_time :: string
  duration :: rat
  input_address :: scalar
  returned_address :: pyval
  latitude :: pyval
  longitude :: pyval
  pcode :: pyval
  result_format_ok :: string
  missing_fields :: string
  error_type :: string
  exception_traceback :: "string option"
  test_outcome :: string
  row_notes :: string

text \<open>The literals of the source that are not ASCII, as UTF-8 bytes.\<close>

definition warning_sign :: string where
  "warning_sign = [CHR 0xE2, CHR 0x9A, CHR 0xA0, CHR 0xEF, CHR 0xB8, CHR 0x8F]"

definition cross_mark :: string where
  "cross_mark = [CHR 0xE2, CHR 0x9D, CHR 0x8C]"

definition check_mark :: string where
  "check_mark = [CHR 0xE2, CHR 0x9C, CHR 0x85]"

definition em_dash :: string where
  "em_dash = [CHR 0xE2, CHR 0x80, CHR 0x94]"

definition outcome_pass :: string where
  "outcome_pass = ''Sanity check: Pass''"

definition outcome_fail :: string where
  "outcome_fail = ''Fail''"

definition outcome_partial :: string where
  "outcome_partial = warning_sign @ '' Partial - Needs Review''"

text \<open>The format \<^verbatim>\<open>f"TC_{idx+1:04}"\<close>: decimal digits, padded with zeros to four at least.\<close>

definition digit_char :: "nat \<Rightarrow> char" where
  "digit_char d = ''0123456789'' ! d"

function str_nat :: "nat \<Rightarrow> string" where
  "str_nat n = (if n < 10 then [digit_char n] else str_nat (n div 10) @ [digit_char (n mod 10)])"
  by pat_completeness auto
termination
  by (relation "measure id") auto

declare str_nat.simps [simp del]

definition zfill :: "nat \<Rightarrow> string \<Rightarrow> string" where
  "zfill w s = replicate (w - length s) (CHR ''0'') @ s"

definition make_test_case_id :: "nat \<Rightarrow> string" where
  "make_test_case_id idx = ''TC_'' @ zfill 4 (str_nat (idx + 1))"

subsection \<open>The body of the loop\<close>

text \<open>\<^verbatim>\<open>result.get(k) if result else None\<close> (lines 99 to 102).\<close>

definition get_or_none :: "pyval \<Rightarrow> string \<Rightarrow> exn + pyval" where
  "get_or_none result k = (if truthy result then py_get result k else Inr PNone)"

text \<open>The loop of lines 104 to 107.\<close>

fun collect_missing :: "pyval \<Rightarrow> string list \<Rightarrow> exn + string list" where
  "collect_missing result [] = Inr []"
| "collect_missing result (field # rest) =
     bind_exn (if result = PNone then Inr True
               else bind_exn (py_get result field) (\<lambda>v. Inr (v = PNone))) (\<lambda>is_missing.
     bind_exn (collect_missing result rest) (\<lambda>others.
       Inr (if is_missing then field # others else others)))"

text \<open>The comprehension of line 112.\<close>

fun falsy_fields :: "pyval \<Rightarrow> string list \<Rightarrow> exn + string list" where
  "falsy_fields result [] = Inr []"
| "falsy_fields result (k # ks) =
     bind_exn (py_get result k) (\<lambda>v.
     bind_exn (falsy_fields result ks) (\<lambda>others.
       Inr (if \<not> truthy v then k # others else others)))"

text \<open>Lines 99 to 142, from the outcome of \<^verbatim>\<open>get_location\<close> to the row.\<close>

definition build_row ::
  "string \<Rightarrow> string \<Rightarrow> rat \<Rightarrow> scalar \<Rightarrow> pyval \<Rightarrow> string option \<Rightarrow> exn + report_row" where
  "build_row tc_id timestamp_v duration_v address result error_msg =
     bind_exn (get_or_none result ''address'') (\<lambda>returned_address_v.
     bind_exn (get_or_none result ''lat'') (\<lambda>lat.
     bind_exn (get_or_none result ''log'') (\<lambda>lng.
     bind_exn (get_or_none result ''pcode'') (\<lambda>pcode_v.
     bind_exn (collect_missing result [''address'', ''lat'', ''log'', ''pcode'']) (\<lambda>missing.
     bind_exn
       (if truthy result \<and> list_all truthy [lat, lng, pcode_v, returned_address_v]
        then Inr ''All fields present''
        else if truthy result
        then bind_exn (falsy_fields result [''lat'', ''log'', ''pcode'', ''address''])
               (\<lambda>ks. Inr (''Missing: '' @ join '', '' ks))
        else Inr ''Invalid or empty result'') (\<lambda>is_format_ok.
       Inr \<lparr> test_case_id = tc_id,
             date_time = timestamp_v,
             duration = duration_v,
             input_address = address,
             returned_address = returned_address_v,
             latitude = lat,
             longitude = lng,
             pcode = pcode_v,
             result_format_ok = is_format_ok,
             missing_fields = (if missing \<noteq> [] then join '', '' missing else ''None''),
             error_type = classify_error result error_msg,
             exception_traceback = error_msg,
             test_outcome =
               (if truthy result \<and> list_all truthy [lat, lng, pcode_v, returned_address_v]
                   \<and> \<not> truthy_msg error_msg
                then outcome_pass
                else if truthy_msg error_msg then outcome_fail
                else outcome_partial),
             row_notes = [] \<rparr>))))))"

subsection \<open>The environment\<close>

text \<open>
  What \<^verbatim>\<open>run_bulk_geocode\<close> reads from outside: the file system, the two pandas readers, the
  geocoder, the clock and the three calls that write. The clock is read once for each
  iteration of the loop, numbered from 0.

  A reader returns a frame or raises. Of a frame the program reads the index and the column
  \<^verbatim>\<open>address\<close>: \<open>frame_rows\<close> lists, top to bottom, the index label of each row and its cell
  in that column. The labels are what pandas loaded: \<open>0, 1, 2, \<dots>\<close> by default, the first
  field of each line when the lines of a CSV file have one field more than the header.
  \<^verbatim>\<open>iterrows\<close> hands each row over as a Series of one dtype, so the value \<^verbatim>\<open>row['address']\<close>
  is the cell cast to the common dtype of the columns (an integer becomes a float beside a
  float column); \<open>series_cast\<close> is that cast, given with the frame. A reader's \<open>None\<close> is a
  frame without the column \<^verbatim>\<open>address\<close>.

  Two library functions are taken from the environment where the model has no text for
  them: \<open>format_float x\<close> is \<^verbatim>\<open>format(x, "04")\<close> for a float \<open>x\<close>, and \<open>unicode_lower s\<close> is
  \<^verbatim>\<open>s.lower()\<close> for a string with a character beyond ASCII.
\<close>

record dataframe =
  frame_rows :: "(scalar \<times> scalar) list"
  series_cast :: "scalar \<Rightarrow> scalar"

record world =
  path_exists :: "string \<Rightarrow> bool"
  read_csv :: "string \<Rightarrow> exn + dataframe option"
  read_excel :: "string \<Rightarrow> exn + dataframe option"
  geocoder :: adapter
  timestamp :: "nat \<Rightarrow> string"
  elapsed :: "nat \<Rightarrow> rat"
  format_float :: "scalar \<Rightarrow> string"
  unicode_lower :: "string \<Rightarrow> string"
  makedirs :: "string \<Rightarrow> exn option"
  to_excel :: "string \<Rightarrow> exn option"
  to_csv :: "string \<Rightarrow> exn option"

subsection \<open>Paths\<close>

text \<open>\<^verbatim>\<open>os.path.splitext(p)[1]\<close>, \<^verbatim>\<open>os.path.dirname(p)\<close> with the separator \<^verbatim>\<open>/\<close>,
  \<^verbatim>\<open>str.lower\<close> and \<^verbatim>\<open>str.endswith\<close>. A byte with its highest bit set belongs to a
  character beyond ASCII; a string without such a byte is lowered letter by letter.\<close>

definition basename_of :: "string \<Rightarrow> string" where
  "basename_of p = rev (takeWhile (\<lambda>c. c \<noteq> CHR ''/'') (rev p))"

definition splitext_ext :: "string \<Rightarrow> string" where
  "splitext_ext p =
     (let b = rev (basename_of p);
          ext = takeWhile (\<lambda>c. c \<noteq> CHR ''.'') b;
          stem = dropWhile (\<lambda>c. c \<noteq> CHR ''.'') b
      in if stem \<noteq> [] \<and> list_ex (\<lambda>c. c \<noteq> CHR ''.'') (tl stem)
         then CHR ''.'' # rev ext else [])"

definition dirname_of :: "string \<Rightarrow> string" where
  "dirname_of p =
     (let head = rev (dropWhile (\<lambda>c. c \<noteq> CHR ''/'') (rev p))
      in if head \<noteq> [] \<and> list_ex (\<lambda>c. c \<noteq> CHR ''/'') head
         then rev (dropWhile (\<lambda>c. c = CHR ''/'') (rev head)) else head)"

definition lower_char :: "char \<Rightarrow> char" where
  "lower_char c =
     (case map_of (zip ''ABCDEFGHIJKLMNOPQRSTUVWXYZ'' ''abcdefghijklmnopqrstuvwxyz'') c of
        Some l \<Rightarrow> l
      | None \<Rightarrow> c)"

definition lower :: "world \<Rightarrow> string \<Rightarrow> string" where
  "lower w s = (if list_ex digit7 s then unicode_lower w s else map lower_char s)"

definition endswith :: "string \<Rightarrow> string \<Rightarrow> bool" where
  "endswith s suf = (length suf \<le> length s \<and> drop (length s - length suf) s = suf)"

subsection \<open>Loading and cleaning the input\<close>

text \<open>Lines 71 to 80: the reader is chosen by the extension.\<close>

definition load_input :: "world \<Rightarrow> string \<Rightarrow> exn + dataframe option" where
  "load_input w input_path =
     (let file_ext = lower w (splitext_ext input_path)
      in if file_ext = [] then
           Inl (Exn ''ValueError''
                  (cross_mark @ '' Input file must include an extension (.csv, .xlsx, or .xls) ''
                   @ em_dash @ '' e.g., addresses.csv''))
         else if file_ext = ''.csv'' then read_csv w input_path
         else if file_ext \<in> set [''.xlsx'', ''.xls''] then read_excel w input_path
         else
           Inl (Exn ''ValueError''
                  (cross_mark @ '' Unsupported input file format: '' @ file_ext
                   @ ''. Use .csv, .xlsx, or .xls.'')))"

text \<open>
  Line 82. \<^verbatim>\<open>dropna\<close> removes the rows whose cell \<^verbatim>\<open>pd.isna\<close> holds of;
  \<^verbatim>\<open>drop_duplicates\<close> keeps the first row of each address and compares cells as Python
  does: a number equals a number of the same value (\<^verbatim>\<open>1 == 1.0 == True\<close>), anything else
  equals only itself. Both look at the cells of the column, and neither changes a label.
\<close>

definition dropna :: "('l \<times> scalar) list \<Rightarrow> ('l \<times> scalar) list" where
  "dropna rows = filter (\<lambda>(idx, a). \<not> isna a) rows"

fun num_val :: "scalar \<Rightarrow> rat option" where
  "num_val (SBool b) = Some (if b then 1 else 0)"
| "num_val (SInt i) = Some (of_int i)"
| "num_val (SFloat r) = Some r"
| "num_val _ = None"

definition py_eq :: "scalar \<Rightarrow> scalar \<Rightarrow> bool" where
  "py_eq a b =
     (case (num_val a, num_val b) of
        (Some x, Some y) \<Rightarrow> x = y
      | (None, None) \<Rightarrow> a = b
      | _ \<Rightarrow> False)"

fun drop_duplicates_from :: "scalar list \<Rightarrow> ('l \<times> scalar) list \<Rightarrow> ('l \<times> scalar) list" where
  "drop_duplicates_from seen [] = []"
| "drop_duplicates_from seen ((idx, a) # rows) =
     (if list_ex (\<lambda>s. py_eq s a) seen then drop_duplicates_from seen rows
      else (idx, a) # drop_duplicates_from (seen @ [a]) rows)"

definition drop_duplicates :: "('l \<times> scalar) list \<Rightarrow> ('l \<times> scalar) list" where
  "drop_duplicates rows = drop_duplicates_from [] rows"

definition clean :: "dataframe option \<Rightarrow> exn + dataframe" where
  "clean loaded =
     (case loaded of
        None \<Rightarrow> Inl (Exn ''KeyError'' (''['' @ quoted ''address'' @ '']''))
      | Some df \<Rightarrow> Inr (df\<lparr>frame_rows := drop_duplicates (dropna (frame_rows df))\<rparr>))"

subsection \<open>The loop and the report\<close>

text \<open>
  Line 92, \<^verbatim>\<open>f"TC_{idx+1:04}"\<close>, for every index label. An integer (a Boolean counts as 0 or
  1) is written in decimal digits, padded with zeros to the width 4, the sign first. A
  float goes through \<^verbatim>\<open>format\<close>. For a string or \<^verbatim>\<open>None\<close> the sum \<^verbatim>\<open>idx+1\<close> raises a
  \<^verbatim>\<open>TypeError\<close>, which no handler catches.
\<close>

definition format_int04 :: "int \<Rightarrow> string" where
  "format_int04 n =
     (if 0 \<le> n then zfill 4 (str_nat (nat n)) else CHR ''-'' # zfill 3 (str_nat (nat (- n))))"

fun format_test_case_id :: "(scalar \<Rightarrow> string) \<Rightarrow> scalar \<Rightarrow> exn + string" where
  "format_test_case_id fmt (SInt i) = Inr (''TC_'' @ format_int04 (i + 1))"
| "format_test_case_id fmt (SBool b) = Inr (''TC_'' @ format_int04 ((if b then 1 else 0) + 1))"
| "format_test_case_id fmt (SFloat r) = Inr (''TC_'' @ fmt (SFloat (r + 1)))"
| "format_test_case_id fmt SNaN = Inr (''TC_'' @ fmt SNaN)"
| "format_test_case_id fmt (SStr s) =
     Inl (Exn ''TypeError''
            (''can only concatenate str (not '' @ [CHR 0x22] @ ''int'' @ [CHR 0x22] @ '') to str''))"
| "format_test_case_id fmt SNone =
     Inl (Exn ''TypeError''
            (''unsupported operand type(s) for +: '' @ quoted ''NoneType'' @ '' and ''
             @ quoted ''int''))"

text \<open>
  One iteration (lines 90 to 142), the \<open>k\<close>-th pass of the loop, over a row of the cleaned
  frame: the address is the cell as the Series holds it, and the identifier comes first, so
  that a label that cannot be added to 1 ends the loop before the geocoder is asked.
\<close>

definition loop_body ::
  "world \<Rightarrow> dataframe \<Rightarrow> nat \<Rightarrow> scalar \<times> scalar \<Rightarrow> scalar list
     \<Rightarrow> (exn + report_row) \<times> scalar list" where
  "loop_body w df k row calls =
     (case row of (idx, cell) \<Rightarrow>
        (let address = series_cast df cell
         in case format_test_case_id (format_float w) idx of
              Inl e \<Rightarrow> (Inl e, calls)
            | Inr tc_id \<Rightarrow>
                (case get_location (geocoder w) address calls of
                   ((result, error_msg), calls') \<Rightarrow>
                     (build_row tc_id (timestamp w k) (elapsed w k)
                        address result error_msg, calls'))))"


text \<open>The loop. An exception ends it; the rows appended so far stay in \<^verbatim>\<open>log_rows\<close>.\<close>

fun process_rows ::
  "world \<Rightarrow> dataframe \<Rightarrow> nat \<Rightarrow> (scalar \<times> scalar) list \<Rightarrow> report_row list \<Rightarrow> scalar list
     \<Rightarrow> (exn option \<times> report_row list) \<times> scalar list" where
  "process_rows w df k [] acc calls = ((None, acc), calls)"
| "process_rows w df k (row # rows) acc calls =
     (case loop_body w df k row calls of
        (Inl e, calls') \<Rightarrow> ((Some e, acc), calls')
      | (Inr r, calls') \<Rightarrow> process_rows w df (Suc k) rows (acc @ [r]) calls')"

text \<open>
  Where a run ends: the exception that left \<^verbatim>\<open>run_bulk_geocode\<close>, if any; the lines printed;
  the rows appended to \<^verbatim>\<open>log_rows\<close>; the report written, with its path; the calls made to
  the geocoder.
\<close>

record run_end =
  raised :: "exn option"
  printed :: "string list"
  log_rows :: "report_row list"
  saved :: "(string \<times> report_row list) option"
  geocoder_calls :: "scalar list"

definition aborted :: "exn \<Rightarrow> run_end" where
  "aborted e = \<lparr> raised = Some e, printed = [], log_rows = [], saved = None,
                 geocoder_calls = [] \<rparr>"

text \<open>Lines 144 to 157.\<close>

definition save_report :: "world \<Rightarrow> string \<Rightarrow> report_row list \<Rightarrow> scalar list \<Rightarrow> run_end" where
  "save_report w output_path rows calls =
     (let unsaved = \<lparr> raised = None, printed = [], log_rows = rows, saved = None,
                      geocoder_calls = calls \<rparr>
      in case makedirs w (dirname_of output_path) of
           Some e \<Rightarrow> unsaved\<lparr>raised := Some e\<rparr>
         | None \<Rightarrow>
             if endswith output_path ''.xlsx'' then
               (case to_excel w output_path of
                  Some e \<Rightarrow> unsaved\<lparr>raised := Some e\<rparr>
                | None \<Rightarrow>
                    unsaved\<lparr>saved := Some (output_path, rows),
                            printed := [check_mark @ '' Excel report saved: '' @ output_path]\<rparr>)
             else if endswith output_path ''.csv'' then
               (case to_csv w output_path of
                  Some e \<Rightarrow> unsaved\<lparr>raised := Some e\<rparr>
                | None \<Rightarrow>
                    unsaved\<lparr>saved := Some (output_path, rows),
                            printed := [check_mark @ '' CSV report saved: '' @ output_path]\<rparr>)
             else
               unsaved\<lparr>printed :=
                 [cross_mark @ '' Unsupported output format. Use .csv or .xlsx'']\<rparr>)"

definition run_bulk_geocode :: "world \<Rightarrow> string \<Rightarrow> string \<Rightarrow> run_end" where
  "run_bulk_geocode w input_path output_path =
     (if \<not> path_exists w input_path then
        \<lparr> raised = None,
          printed = [cross_mark @ '' Error: File not found '' @ em_dash @ '' '' @ input_path],
          log_rows = [], saved = None, geocoder_calls = [] \<rparr>
      else
        (case bind_exn (load_input w input_path) clean of
           Inl e \<Rightarrow> aborted e
         | Inr df \<Rightarrow>
             (case process_rows w df 0 (frame_rows df) [] [] of
                ((Some e, rs), calls) \<Rightarrow>
                  \<lparr> raised = Some e, printed = [], log_rows = rs, saved = None,
                    geocoder_calls = calls \<rparr>
              | ((None, rs), calls) \<Rightarrow> save_report w output_path rs calls)))"

section \<open>Notions used to state the properties\<close>

text \<open>
  The rows that remain after cleaning, said in words: row \<open>i\<close> of the input remains when its
  address is not missing and no earlier row has an equal address.
\<close>

definition first_occurrence :: "scalar list \<Rightarrow> nat \<Rightarrow> bool" where
  "first_occurrence col i = (\<not> isna (col ! i) \<and> (\<forall>j<i. \<not> py_eq (col ! j) (col ! i)))"

text \<open>
  The positions, in the loaded frame, of the rows that remain after cleaning, top to bottom.
\<close>

definition survivors :: "dataframe \<Rightarrow> nat list" where
  "survivors df =
     filter (first_occurrence (map snd (frame_rows df))) [0..<length (frame_rows df)]"

text \<open>
  A label is numeric when 1 can be added to it, so that line 92 does not raise: every label
  but a string and \<^verbatim>\<open>None\<close>.
\<close>

definition numeric_label :: "scalar \<Rightarrow> bool" where
  "numeric_label l = (case l of SStr s \<Rightarrow> False | SNone \<Rightarrow> False | _ \<Rightarrow> True)"

text \<open>The number that a string of decimal digits denotes.\<close>

definition digits_value :: "string \<Rightarrow> nat" where
  "digits_value s = foldl (\<lambda>a c. 10 * a + (of_char c - 48)) 0 s"

text \<open>The dictionary that \<^verbatim>\<open>get_location\<close> returns beside \<^verbatim>\<open>None\<close> (lines 55 to 60).\<close>

definition candidate :: "pyval \<Rightarrow> pyval \<Rightarrow> pyval \<Rightarrow> pyval \<Rightarrow> pyval" where
  "candidate a p la lo = PDict [(''address'', a), (''pcode'', p), (''lat'', la), (''log'', lo)]"


text \<open>
  An environment to run the program in: one input file \<^verbatim>\<open>data/addresses.csv\<close> with a given
  address column under the default index and no other column, a given geocoder, a clock
  that stands still, and writers that succeed.
\<close>

definition default_index :: "scalar list \<Rightarrow> (scalar \<times> scalar) list" where
  "default_index col = zip (map (\<lambda>i. SInt (int i)) [0..<length col]) col"

definition example_world :: "adapter \<Rightarrow> scalar list \<Rightarrow> world" where
  "example_world g col =
     \<lparr> path_exists = (\<lambda>p. p = ''data/addresses.csv''),
       read_csv = (\<lambda>p. Inr (Some \<lparr> frame_rows = default_index col, series_cast = (\<lambda>c. c) \<rparr>)),
       read_excel = (\<lambda>p. Inr (Some \<lparr> frame_rows = default_index col, series_cast = (\<lambda>c. c) \<rparr>)),
       geocoder = g,
       timestamp = (\<lambda>k. ''2025-01-01 00:00:00''),
       elapsed = (\<lambda>k. 0),
       format_float = (\<lambda>x. []),
       unicode_lower = (\<lambda>s. s),
       makedirs = (\<lambda>p. None),
       to_excel = (\<lambda>p. None),
       to_csv = (\<lambda>p. None) \<rparr>"

text \<open>The geocoder of the end-to-end scenarios: one complete candidate for every address.\<close>

definition complete_geocoder :: adapter where
  "complete_geocoder a =
     Returns (PList [PDict [(''address'', Scalar (SStr ''X'')), (''pcode'', Scalar (SStr ''11000'')),
                            (''latitude'', Scalar (SFloat (84 / 5))),
                            (''longitude'', Scalar (SFloat (961 / 10)))]])"


definition labelled_world :: "adapter \<Rightarrow> (scalar \<times> scalar) list \<Rightarrow> world" where
  "labelled_world g rows =
     (example_world g [])
       \<lparr> read_csv := (\<lambda>p. Inr (Some \<lparr> frame_rows = rows, series_cast = (\<lambda>c. c) \<rparr>)) \<rparr>"


section \<open>Strings\<close>

lemma split_on_not_Nil: "split_on sep s \<noteq> []"
  by (induction s) (auto split: list.splits)

lemma hd_split_on: "hd (split_on sep s) = takeWhile (\<lambda>c. c \<noteq> sep) s"
proof (induction s)
  case Nil
  show ?case by simp
next
  case (Cons c cs)
  show ?case
  proof (cases "c = sep")
    case True
    then show ?thesis by simp
  next
    case False
    obtain w ws where w: "split_on sep cs = w # ws"
      using split_on_not_Nil [of sep cs] by (cases "split_on sep cs") auto
    with Cons False show ?thesis by simp
  qed
qed

lemma starts_with_iff: "starts_with s p \<longleftrightarrow> (\<exists>q. s = p @ q)"
  by (induction s p rule: starts_with.induct) auto

lemma str_contains_iff: "str_contains sub s \<longleftrightarrow> (\<exists>p q. s = p @ sub @ q)"
proof (induction s)
  case Nil
  show ?case by simp
next
  case (Cons c cs)
  have "(\<exists>p q. c # cs = p @ sub @ q) \<longleftrightarrow> (\<exists>q. c # cs = sub @ q) \<or> (\<exists>p q. cs = p @ sub @ q)"
  proof
    assume "\<exists>p q. c # cs = p @ sub @ q"
    then obtain p q where pq: "c # cs = p @ sub @ q" by blast
    show "(\<exists>q. c # cs = sub @ q) \<or> (\<exists>p q. cs = p @ sub @ q)"
    proof (cases p)
      case Nil
      with pq show ?thesis by auto
    next
      case (Cons a p')
      with pq have "cs = p' @ sub @ q" by simp
      then show ?thesis by blast
    qed
  next
    assume "(\<exists>q. c # cs = sub @ q) \<or> (\<exists>p q. cs = p @ sub @ q)"
    then show "\<exists>p q. c # cs = p @ sub @ q"
    proof
      assume "\<exists>q. c # cs = sub @ q"
      then obtain q where "c # cs = [] @ sub @ q" by auto
      then show ?thesis by blast
    next
      assume "\<exists>p q. cs = p @ sub @ q"
      then obtain p q where "c # cs = (c # p) @ sub @ q" by auto
      then show ?thesis by blast
    qed
  qed
  then show ?case using Cons by (simp add: starts_with_iff)
qed

section \<open>Cleaning keeps the first occurrences\<close>



lemma py_eq_trans: "py_eq a b \<Longrightarrow> py_eq b c \<Longrightarrow> py_eq a c"
  by (auto simp: py_eq_def split: option.splits)

lemma py_eq_isna: "py_eq a b \<Longrightarrow> isna a = isna b"
  by (cases a; cases b) (simp_all add: py_eq_def)

lemma dropna_Cons: "dropna ((i, x) # rows) = (if isna x then dropna rows else (i, x) # dropna rows)"
  by (simp add: dropna_def)

lemma exists_less_Suc_snoc:
  fixes pre :: "'a list" and Q :: "'a \<Rightarrow> bool"
  assumes last: "(pre @ [x]) ! n = x" and early: "\<And>j. j < n \<Longrightarrow> (pre @ [x]) ! j = pre ! j"
  shows "(\<exists>j<Suc n. Q ((pre @ [x]) ! j)) \<longleftrightarrow> (\<exists>j<n. Q (pre ! j)) \<or> Q x"
proof
  assume "\<exists>j<Suc n. Q ((pre @ [x]) ! j)"
  then obtain j where j: "j < Suc n" "Q ((pre @ [x]) ! j)" by blast
  show "(\<exists>j<n. Q (pre ! j)) \<or> Q x"
  proof (cases "j = n")
    case True
    with j last show ?thesis by simp
  next
    case False
    with j have "j < n" by simp
    with j early show ?thesis by auto
  qed
next
  assume "(\<exists>j<n. Q (pre ! j)) \<or> Q x"
  then show "\<exists>j<Suc n. Q ((pre @ [x]) ! j)"
  proof
    assume "\<exists>j<n. Q (pre ! j)"
    then obtain j where "j < n" "Q (pre ! j)" by blast
    with early have "j < Suc n" "Q ((pre @ [x]) ! j)" by simp_all
    then show ?thesis by blast
  next
    assume "Q x"
    with last have "n < Suc n" "Q ((pre @ [x]) ! n)" by simp_all
    then show ?thesis by blast
  qed
qed

lemma drop_duplicates_from_first_occurrence:
  assumes "length pre = n"
    and "\<forall>a. \<not> isna a \<longrightarrow> (list_ex (\<lambda>s. py_eq s a) seen \<longleftrightarrow> (\<exists>j<n. py_eq (pre ! j) a))"
  shows "drop_duplicates_from seen (dropna (zip [n..<n + length xs] xs)) =
         map (\<lambda>i. (i, (pre @ xs) ! i)) (filter (first_occurrence (pre @ xs)) [n..<n + length xs])"
  using assms
proof (induction xs arbitrary: n pre seen)
  case Nil
  then show ?case by (simp add: dropna_def)
next
  case (Cons x xs)
  define col where "col = pre @ x # xs"
  define m where "m = Suc n + length xs"
  define rest where "rest = zip [Suc n..<m] xs"
  define tail where "tail = map (\<lambda>i. (i, col ! i)) (filter (first_occurrence col) [Suc n..<m])"
  have col: "col = (pre @ [x]) @ xs" by (simp add: col_def)
  have len: "length (pre @ [x]) = Suc n" using Cons.prems(1) by simp
  have at_n: "col ! n = x" using Cons.prems(1) by (simp add: col_def nth_append)
  have before: "\<And>j. j < n \<Longrightarrow> col ! j = pre ! j"
    using Cons.prems(1) by (simp add: col_def nth_append)
  have upt: "[n..<n + length (x # xs)] = n # [Suc n..<m]"
    unfolding m_def by (subst upt_rec) simp
  have lhs: "zip [n..<n + length (x # xs)] (x # xs) = (n, x) # rest"
    unfolding rest_def by (simp only: upt zip_Cons_Cons)
  have rhs: "map (\<lambda>i. (i, col ! i)) (filter (first_occurrence col) [n..<n + length (x # xs)]) =
             (if first_occurrence col n then (n, x) # tail else tail)"
    unfolding tail_def upt using at_n by (cases "first_occurrence col n") simp_all
  have fo: "first_occurrence col n \<longleftrightarrow> \<not> isna x \<and> \<not> list_ex (\<lambda>s. py_eq s x) seen"
  proof -
    have "(\<forall>j<n. \<not> py_eq (col ! j) x) \<longleftrightarrow> \<not> (\<exists>j<n. py_eq (pre ! j) x)"
      using before by auto
    then show ?thesis
      using Cons.prems(2) at_n by (auto simp: first_occurrence_def)
  qed
  have last: "(pre @ [x]) ! n = x"
    using Cons.prems(1) by (simp add: nth_append)
  have early: "\<And>j. j < n \<Longrightarrow> (pre @ [x]) ! j = pre ! j"
    using Cons.prems(1) by (simp add: nth_append)
  have split_ex: "\<And>a. (\<exists>j<Suc n. py_eq ((pre @ [x]) ! j) a) \<longleftrightarrow>
                     (\<exists>j<n. py_eq (pre ! j) a) \<or> py_eq x a"
    by (rule exists_less_Suc_snoc [where Q = "\<lambda>v. py_eq v a" for a, OF last early])
  show ?case
  proof (cases "isna x \<or> list_ex (\<lambda>s. py_eq s x) seen")
    case True
    have inv: "\<forall>a. \<not> isna a \<longrightarrow>
        (list_ex (\<lambda>s. py_eq s a) seen \<longleftrightarrow> (\<exists>j<Suc n. py_eq ((pre @ [x]) ! j) a))"
    proof (intro allI impI)
      fix a assume na: "\<not> isna a"
      have "list_ex (\<lambda>s. py_eq s a) seen" if xa: "py_eq x a"
      proof -
        from xa have "\<not> isna x" using na py_eq_isna by blast
        with True have "list_ex (\<lambda>s. py_eq s x) seen" by simp
        then obtain s where "s \<in> set seen" "py_eq s x" by (auto simp: list_ex_iff)
        then have "s \<in> set seen" "py_eq s a" using xa py_eq_trans by blast+
        then show ?thesis unfolding list_ex_iff by blast
      qed
      then show "list_ex (\<lambda>s. py_eq s a) seen \<longleftrightarrow> (\<exists>j<Suc n. py_eq ((pre @ [x]) ! j) a)"
        unfolding split_ex using Cons.prems(2) na by blast
    qed
    have "drop_duplicates_from seen (dropna ((n, x) # rest)) =
          drop_duplicates_from seen (dropna rest)"
      using True by (auto simp: dropna_Cons)
    also have "\<dots> = tail"
      unfolding rest_def tail_def m_def col by (rule Cons.IH [OF len inv])
    finally show ?thesis
      unfolding col_def [symmetric] lhs rhs using True fo by simp
  next
    case False
    have inv: "\<forall>a. \<not> isna a \<longrightarrow>
        (list_ex (\<lambda>s. py_eq s a) (seen @ [x]) \<longleftrightarrow> (\<exists>j<Suc n. py_eq ((pre @ [x]) ! j) a))"
    proof (intro allI impI)
      fix a assume na: "\<not> isna a"
      have "list_ex (\<lambda>s. py_eq s a) (seen @ [x]) \<longleftrightarrow> list_ex (\<lambda>s. py_eq s a) seen \<or> py_eq x a"
        by (auto simp: list_ex_iff)
      then show "list_ex (\<lambda>s. py_eq s a) (seen @ [x]) \<longleftrightarrow> (\<exists>j<Suc n. py_eq ((pre @ [x]) ! j) a)"
        unfolding split_ex using Cons.prems(2) na by blast
    qed
    have "drop_duplicates_from seen (dropna ((n, x) # rest)) =
          (n, x) # drop_duplicates_from (seen @ [x]) (dropna rest)"
      using False by (auto simp: dropna_Cons)
    also have "drop_duplicates_from (seen @ [x]) (dropna rest) = tail"
      unfolding rest_def tail_def m_def col by (rule Cons.IH [OF len inv])
    finally show ?thesis
      unfolding col_def [symmetric] lhs rhs using False fo by simp
  qed
qed

lemma enumerated_first_occurrence:
  "drop_duplicates (dropna (zip [0..<length col] col)) =
   map (\<lambda>i. (i, col ! i)) (filter (first_occurrence col) [0..<length col])"
  using drop_duplicates_from_first_occurrence [of "[]" 0 "[]" col]
  by (simp add: drop_duplicates_def)

text \<open>Cleaning looks at the cells only: it commutes with every change of the labels.\<close>

lemma drop_duplicates_from_relabel:
  "drop_duplicates_from seen (dropna (map (\<lambda>(i, c). (f i, c)) rows)) =
   map (\<lambda>(i, c). (f i, c)) (drop_duplicates_from seen (dropna rows))"
proof (induction rows arbitrary: seen)
  case Nil
  show ?case by (simp add: dropna_def)
next
  case (Cons row rows)
  obtain i c where row: "row = (i, c)" by (cases row)
  show ?case
    unfolding row using Cons.IH by (simp add: dropna_Cons)
qed

lemma rows_as_relabelled:
  "map (\<lambda>(i, c). (fst (rows ! i), c)) (zip [0..<length rows] (map snd rows)) = rows"
  by (rule nth_equalityI) simp_all

lemma clean_first_occurrence:
  "drop_duplicates (dropna rows) =
   map (\<lambda>i. rows ! i) (filter (first_occurrence (map snd rows)) [0..<length rows])"
proof -
  let ?cells = "map snd rows"
  let ?ps = "filter (first_occurrence ?cells) [0..<length rows]"
  have "drop_duplicates (dropna rows) =
        drop_duplicates (dropna
          (map (\<lambda>(i, c). (fst (rows ! i), c)) (zip [0..<length ?cells] ?cells)))"
    using rows_as_relabelled [of rows] by simp
  also have "\<dots> = map (\<lambda>(i, c). (fst (rows ! i), c))
                     (drop_duplicates (dropna (zip [0..<length ?cells] ?cells)))"
    unfolding drop_duplicates_def by (rule drop_duplicates_from_relabel)
  also have "\<dots> = map (\<lambda>(i, c). (fst (rows ! i), c)) (map (\<lambda>i. (i, ?cells ! i)) ?ps)"
    unfolding enumerated_first_occurrence by simp
  also have "\<dots> = map (\<lambda>i. rows ! i) ?ps"
    by (simp add: comp_def)
  finally show ?thesis .
qed

section \<open>The outcomes of the resolver\<close>

lemma get_location_empty:
  "\<not> truthy_scalar a \<or> isna a \<Longrightarrow> get_location g a calls = ((PNone, Some ''Empty input''), calls)"
  by (simp add: get_location_def get_location_try_def)

lemma get_location_raises:
  "truthy_scalar a \<Longrightarrow> \<not> isna a \<Longrightarrow> g a = Raises e \<Longrightarrow>
   get_location g a calls = ((PNone, Some (exn_str e)), calls @ [a])"
  by (simp add: get_location_def get_location_try_def)

lemma get_location_no_result:
  "truthy_scalar a \<Longrightarrow> \<not> isna a \<Longrightarrow> g a = Returns v \<Longrightarrow> \<forall>x xs. v \<noteq> PList (x # xs) \<Longrightarrow>
   get_location g a calls = ((PNone, Some ''No result''), calls @ [a])"
  by (cases v) (auto simp: get_location_def get_location_try_def split: list.splits)

lemma get_location_first_dict:
  "truthy_scalar a \<Longrightarrow> \<not> isna a \<Longrightarrow> g a = Returns (PList (PDict d # rest)) \<Longrightarrow>
   get_location g a calls =
     ((candidate (dict_get d ''address'') (dict_get d ''pcode'')
                 (dict_get d ''latitude'') (dict_get d ''longitude''), None), calls @ [a])"
  by (simp add: get_location_def get_location_try_def bind_exn_def candidate_def)

lemma get_location_first_not_dict:
  "truthy_scalar a \<Longrightarrow> \<not> isna a \<Longrightarrow> g a = Returns (PList (x # rest)) \<Longrightarrow> \<not> is_dict x \<Longrightarrow>
   get_location g a calls =
     ((PNone, Some (quoted (type_name x) @ '' object has no attribute '' @ quoted ''get'')),
      calls @ [a])"
  by (cases x) (simp_all add: get_location_def get_location_try_def bind_exn_def)

lemma get_location_calls:
  "snd (get_location g a calls) = calls @ filter (\<lambda>a. truthy_scalar a \<and> \<not> isna a) [a]"
proof -
  have body: "snd (get_location_try g a calls) =
      calls @ filter (\<lambda>a. truthy_scalar a \<and> \<not> isna a) [a]"
    by (simp add: get_location_try_def split: adapter_result.splits)
  have "snd (get_location g a calls) = snd (get_location_try g a calls)"
    by (cases "get_location_try g a calls"; cases "fst (get_location_try g a calls)")
       (simp_all add: get_location_def)
  then show ?thesis using body by simp
qed

lemma get_location_cases:
  obtains (absent) m calls' where "get_location g a calls = ((PNone, Some m), calls')"
  | (found) va vp vla vlo calls' where
      "get_location g a calls = ((candidate va vp vla vlo, None), calls')"
proof (cases "\<not> truthy_scalar a \<or> isna a")
  case True
  then show ?thesis using get_location_empty absent by blast
next
  case usable: False
  show ?thesis
  proof (cases "g a")
    case (Raises e)
    with usable show ?thesis using get_location_raises absent by blast
  next
    case (Returns v)
    show ?thesis
    proof (cases "\<exists>x xs. v = PList (x # xs)")
      case False
      with usable Returns show ?thesis using get_location_no_result [of a g v] absent by blast
    next
      case True
      then obtain x xs where v: "v = PList (x # xs)" by blast
      show ?thesis
      proof (cases x)
        case (PDict d)
        with usable Returns v show ?thesis using get_location_first_dict [of a g d xs] found by blast
      next
        case (Scalar s)
        with usable Returns v show ?thesis
          using get_location_first_not_dict [of a g x xs] absent by auto
      next
        case (PList l)
        with usable Returns v show ?thesis
          using get_location_first_not_dict [of a g x xs] absent by auto
      next
        case (PTuple l)
        with usable Returns v show ?thesis
          using get_location_first_not_dict [of a g x xs] absent by auto
      qed
    qed
  qed
qed

section \<open>Rows\<close>

lemma collect_missing_dict:
  "collect_missing (PDict d) ks = Inr (filter (\<lambda>k. dict_get d k = PNone) ks)"
  by (induction ks) (simp_all add: bind_exn_def)

lemma falsy_fields_dict:
  "falsy_fields (PDict d) ks = Inr (filter (\<lambda>k. \<not> truthy (dict_get d k)) ks)"
  by (induction ks) (simp_all add: bind_exn_def)

lemma dict_get_candidate:
  "dict_get [(''address'', a), (''pcode'', p), (''lat'', la), (''log'', lo)] ''address'' = a"
  "dict_get [(''address'', a), (''pcode'', p), (''lat'', la), (''log'', lo)] ''pcode'' = p"
  "dict_get [(''address'', a), (''pcode'', p), (''lat'', la), (''log'', lo)] ''lat'' = la"
  "dict_get [(''address'', a), (''pcode'', p), (''lat'', la), (''log'', lo)] ''log'' = lo"
  by (simp_all add: dict_get_def)

lemma build_row_absent:
  "build_row tc ts du a PNone m =
     Inr \<lparr> test_case_id = tc, date_time = ts, duration = du, input_address = a,
           returned_address = PNone, latitude = PNone, longitude = PNone, pcode = PNone,
           result_format_ok = ''Invalid or empty result'',
           missing_fields = ''address, lat, log, pcode'',
           error_type = classify_error PNone m,
           exception_traceback = m,
           test_outcome = (if truthy_msg m then outcome_fail else outcome_partial),
           row_notes = [] \<rparr>"
  by (simp add: build_row_def bind_exn_def get_or_none_def)

lemma build_row_candidate:
  "build_row tc ts du a (candidate va vp vla vlo) m =
     Inr \<lparr> test_case_id = tc, date_time = ts, duration = du, input_address = a,
           returned_address = va, latitude = vla, longitude = vlo, pcode = vp,
           result_format_ok =
             (if truthy vla \<and> truthy vlo \<and> truthy vp \<and> truthy va then ''All fields present''
              else ''Missing: '' @ join '', ''
                     (map fst (filter (\<lambda>(k, v). \<not> truthy v)
                        [(''lat'', vla), (''log'', vlo), (''pcode'', vp), (''address'', va)]))),
           missing_fields =
             (if va = PNone \<or> vla = PNone \<or> vlo = PNone \<or> vp = PNone
              then join '', ''
                     (map fst (filter (\<lambda>(k, v). v = PNone)
                        [(''address'', va), (''lat'', vla), (''log'', vlo), (''pcode'', vp)]))
              else ''None''),
           error_type = classify_error (candidate va vp vla vlo) m,
           exception_traceback = m,
           test_outcome =
             (if truthy vla \<and> truthy vlo \<and> truthy vp \<and> truthy va \<and> \<not> truthy_msg m
              then outcome_pass
              else if truthy_msg m then outcome_fail else outcome_partial),
           row_notes = [] \<rparr>"
  unfolding build_row_def candidate_def get_or_none_def collect_missing_dict falsy_fields_dict
  by (simp add: bind_exn_def dict_get_candidate)

section \<open>The loop and the run\<close>



text \<open>A label is numeric when 1 can be added to it: line 92 does not raise.\<close>

lemma format_numeric_label:
  "numeric_label l \<Longrightarrow> \<exists>tc. format_test_case_id fmt l = Inr tc"
  by (cases l) (simp_all add: numeric_label_def)

lemma format_not_numeric_label:
  "\<not> numeric_label l \<Longrightarrow> \<exists>e. format_test_case_id fmt l = Inl e \<and> exn_class e = ''TypeError''"
  by (cases l) (simp_all add: numeric_label_def)

lemma format_nat_label:
  "format_test_case_id fmt (SInt (int idx)) = Inr (make_test_case_id idx)"
  by (simp add: make_test_case_id_def format_int04_def nat_add_distrib)


lemma loop_body_ok:
  assumes "format_test_case_id (format_float w) l = Inr tc"
  shows "\<exists>row calls'. loop_body w df k (l, c) calls = (Inr row, calls')
      \<and> test_case_id row = tc \<and> input_address row = series_cast df c
      \<and> calls' = calls @ filter (\<lambda>a. truthy_scalar a \<and> \<not> isna a) [series_cast df c]"
proof (cases rule: get_location_cases [of "geocoder w" "series_cast df c" calls])
  case (absent m calls')
  then show ?thesis
    using assms get_location_calls [of "geocoder w" "series_cast df c" calls]
    by (simp add: loop_body_def Let_def build_row_absent)
next
  case (found va vp vla vlo calls')
  then show ?thesis
    using assms get_location_calls [of "geocoder w" "series_cast df c" calls]
    by (simp add: loop_body_def Let_def build_row_candidate)
qed

lemma loop_body_raises:
  assumes "format_test_case_id (format_float w) l = Inl e"
  shows "loop_body w df k (l, c) calls = (Inl e, calls)"
  using assms by (simp add: loop_body_def Let_def)

lemma process_rows_ok:
  assumes "\<forall>row\<in>set rows. numeric_label (fst row)"
  shows "\<exists>rs calls'. process_rows w df k rows acc calls = ((None, acc @ rs), calls')
      \<and> map input_address rs = map (\<lambda>row. series_cast df (snd row)) rows
      \<and> map (\<lambda>r. Inr (test_case_id r)) rs =
          map (\<lambda>row. format_test_case_id (format_float w) (fst row)) rows
      \<and> calls' = calls @ filter (\<lambda>a. truthy_scalar a \<and> \<not> isna a)
                             (map (\<lambda>row. series_cast df (snd row)) rows)"
  using assms
proof (induction rows arbitrary: k acc calls)
  case Nil
  show ?case by simp
next
  case (Cons row rows)
  obtain l c where row: "row = (l, c)" by (cases row)
  have "numeric_label l" using Cons.prems row by simp
  then obtain tc where tc: "format_test_case_id (format_float w) l = Inr tc"
    using format_numeric_label by blast
  obtain r c1 where r: "loop_body w df k (l, c) calls = (Inr r, c1)"
    "test_case_id r = tc" "input_address r = series_cast df c"
    "c1 = calls @ filter (\<lambda>a. truthy_scalar a \<and> \<not> isna a) [series_cast df c]"
    using loop_body_ok [OF tc, of df k c calls] by blast
  have rest: "\<forall>row\<in>set rows. numeric_label (fst row)" using Cons.prems by simp
  obtain rs c2 where rs:
    "process_rows w df (Suc k) rows (acc @ [r]) c1 = ((None, (acc @ [r]) @ rs), c2)"
    "map input_address rs = map (\<lambda>row. series_cast df (snd row)) rows"
    "map (\<lambda>r. Inr (test_case_id r)) rs =
       map (\<lambda>row. format_test_case_id (format_float w) (fst row)) rows"
    "c2 = c1 @ filter (\<lambda>a. truthy_scalar a \<and> \<not> isna a)
                 (map (\<lambda>row. series_cast df (snd row)) rows)"
    using Cons.IH [OF rest, of "Suc k" "acc @ [r]" c1] by blast
  have "process_rows w df k (row # rows) acc calls = ((None, acc @ (r # rs)), c2)"
    using row r(1) rs(1) by simp
  moreover have "map input_address (r # rs) = map (\<lambda>row. series_cast df (snd row)) (row # rows)"
    using row r(3) rs(2) by simp
  moreover have "map (\<lambda>r. Inr (test_case_id r)) (r # rs) =
                 map (\<lambda>row. format_test_case_id (format_float w) (fst row)) (row # rows)"
    using row r(2) tc rs(3) by simp
  moreover have "c2 = calls @ filter (\<lambda>a. truthy_scalar a \<and> \<not> isna a)
                                (map (\<lambda>row. series_cast df (snd row)) (row # rows))"
    using row r(4) rs(4) by simp
  ultimately show ?case by blast
qed

lemma save_report_log_rows: "log_rows (save_report w output_path rows calls) = rows"
  by (simp add: save_report_def Let_def split: option.splits)

lemma save_report_calls: "geocoder_calls (save_report w output_path rows calls) = calls"
  by (simp add: save_report_def Let_def split: option.splits)


text \<open>
  A run whose input loads, and in which every surviving row has a numeric label, reaches
  the end of the loop with one row for each survivor, in order.
\<close>

lemma run_loaded:
  assumes "path_exists w input_path" and "load_input w input_path = Inr (Some df)"
    and "\<forall>i\<in>set (survivors df). numeric_label (fst (frame_rows df ! i))"
  shows "\<exists>rs calls. run_bulk_geocode w input_path output_path = save_report w output_path rs calls
      \<and> map input_address rs = map (\<lambda>i. series_cast df (snd (frame_rows df ! i))) (survivors df)
      \<and> map (\<lambda>r. Inr (test_case_id r)) rs =
          map (\<lambda>i. format_test_case_id (format_float w) (fst (frame_rows df ! i))) (survivors df)
      \<and> calls = filter (\<lambda>a. truthy_scalar a \<and> \<not> isna a)
                  (map (\<lambda>i. series_cast df (snd (frame_rows df ! i))) (survivors df))"
proof -
  let ?rows = "drop_duplicates (dropna (frame_rows df))"
  let ?df = "df\<lparr>frame_rows := ?rows\<rparr>"
  have rows: "?rows = map (\<lambda>i. frame_rows df ! i) (survivors df)"
    unfolding survivors_def by (rule clean_first_occurrence)
  have "\<forall>row\<in>set ?rows. numeric_label (fst row)"
    unfolding rows using assms(3) by simp
  then obtain rs calls where rs:
    "process_rows w ?df 0 ?rows [] [] = ((None, [] @ rs), calls)"
    "map input_address rs = map (\<lambda>row. series_cast ?df (snd row)) ?rows"
    "map (\<lambda>r. Inr (test_case_id r)) rs =
       map (\<lambda>row. format_test_case_id (format_float w) (fst row)) ?rows"
    "calls = [] @ filter (\<lambda>a. truthy_scalar a \<and> \<not> isna a)
                    (map (\<lambda>row. series_cast ?df (snd row)) ?rows)"
    using process_rows_ok [of ?rows w ?df 0 "[]" "[]"] by blast
  have "run_bulk_geocode w input_path output_path = save_report w output_path rs calls"
    using assms(1,2) rs(1) by (simp add: run_bulk_geocode_def bind_exn_def clean_def)
  moreover have "map input_address rs =
      map (\<lambda>i. series_cast df (snd (frame_rows df ! i))) (survivors df)"
    using rs(2) unfolding rows by (simp add: comp_def)
  moreover have "map (\<lambda>r. Inr (test_case_id r)) rs =
      map (\<lambda>i. format_test_case_id (format_float w) (fst (frame_rows df ! i))) (survivors df)"
    using rs(3) unfolding rows by (simp add: comp_def)
  moreover have "calls = filter (\<lambda>a. truthy_scalar a \<and> \<not> isna a)
      (map (\<lambda>i. series_cast df (snd (frame_rows df ! i))) (survivors df))"
    using rs(4) unfolding rows by (simp add: comp_def)
  ultimately show ?thesis by blast
qed

section \<open>Facts for evaluating the examples\<close>

lemma first_occurrence_list_all:
  "first_occurrence col i =
     (\<not> isna (col ! i) \<and> list_all (\<lambda>j. \<not> py_eq (col ! j) (col ! i)) [0..<i])"
  by (auto simp: first_occurrence_def list_all_iff)

lemma exists_example: "path_exists (example_world g col) ''data/addresses.csv''"
  by (simp add: example_world_def)

lemma load_example:
  "load_input (example_world g col) ''data/addresses.csv'' =
     Inr (Some \<lparr> frame_rows = default_index col, series_cast = (\<lambda>c. c) \<rparr>)"
  by (simp add: load_input_def example_world_def splitext_ext_def basename_of_def lower_def
        lower_char_def)



section \<open>One survivor for each address\<close>


section \<open>Identifiers of different labels differ\<close>

lemma digit_char_value: "d < 10 \<Longrightarrow> of_char (digit_char d) = (48 + d :: nat)"
proof -
  assume "d < 10"
  then have "d \<in> {0, 1, 2, 3, 4, 5, 6, 7, 8, 9}" by auto
  then show ?thesis
    by (elim insertE emptyE) (simp_all add: digit_char_def)
qed

lemma digit_char_not_minus: "d < 10 \<Longrightarrow> digit_char d \<noteq> CHR ''-''"
proof -
  assume "d < 10"
  then have "d \<in> {0, 1, 2, 3, 4, 5, 6, 7, 8, 9}" by auto
  then show ?thesis
    by (elim insertE emptyE) (simp_all add: digit_char_def)
qed

lemma digits_value_snoc:
  "digits_value (s @ [c]) = 10 * digits_value s + (of_char c - 48)"
  by (simp add: digits_value_def)

lemma digits_value_str_nat: "digits_value (str_nat n) = n"
proof (induction n rule: str_nat.induct)
  case (1 n)
  show ?case
  proof (cases "n < 10")
    case True
    then show ?thesis
      by (subst str_nat.simps) (simp add: digits_value_def digit_char_value)
  next
    case False
    have "n mod 10 < 10" by simp
    then have "of_char (digit_char (n mod 10)) - 48 = n mod 10"
      by (simp add: digit_char_value)
    moreover have "digits_value (str_nat (n div 10)) = n div 10"
      using False by (rule "1.IH")
    ultimately have "digits_value (str_nat (n div 10) @ [digit_char (n mod 10)]) = n"
      by (simp add: digits_value_snoc)
    then show ?thesis
      using False by (subst str_nat.simps) simp
  qed
qed

lemma digits_value_zeros: "digits_value (replicate k (CHR ''0'') @ s) = digits_value s"
proof -
  have "foldl (\<lambda>a c. 10 * a + (of_char c - 48)) 0 (replicate k (CHR ''0'')) = (0::nat)"
    by (induction k) simp_all
  then show ?thesis by (simp add: digits_value_def)
qed

lemma digits_value_zfill: "digits_value (zfill w (str_nat n)) = n"
  by (simp add: zfill_def digits_value_zeros digits_value_str_nat)

lemma minus_not_in_str_nat: "CHR ''-'' \<notin> set (str_nat n)"
proof (induction n rule: str_nat.induct)
  case (1 n)
  show ?case
  proof (cases "n < 10")
    case True
    then show ?thesis
      using digit_char_not_minus [of n] by (subst str_nat.simps) auto
  next
    case False
    have "n mod 10 < 10" by simp
    then have "digit_char (n mod 10) \<noteq> CHR ''-''" by (rule digit_char_not_minus)
    moreover have "CHR ''-'' \<notin> set (str_nat (n div 10))" using False by (rule "1.IH")
    ultimately show ?thesis
      using False by (subst str_nat.simps) auto
  qed
qed

lemma minus_not_in_zfill: "CHR ''-'' \<notin> set (zfill w (str_nat n))"
  using minus_not_in_str_nat [of n] by (auto simp: zfill_def)

lemma format_int04_inject: "format_int04 a = format_int04 b \<longleftrightarrow> a = b"
proof
  assume eq: "format_int04 a = format_int04 b"
  show "a = b"
  proof (cases "0 \<le> a")
    case a: True
    show ?thesis
    proof (cases "0 \<le> b")
      case True
      with a eq have "zfill 4 (str_nat (nat a)) = zfill 4 (str_nat (nat b))"
        by (simp add: format_int04_def)
      then have "digits_value (zfill 4 (str_nat (nat a))) = digits_value (zfill 4 (str_nat (nat b)))"
        by simp
      then have "nat a = nat b" by (simp only: digits_value_zfill)
      with a True show ?thesis by simp
    next
      case False
      with a eq have "zfill 4 (str_nat (nat a)) = CHR ''-'' # zfill 3 (str_nat (nat (- b)))"
        by (simp add: format_int04_def)
      then have "CHR ''-'' \<in> set (zfill 4 (str_nat (nat a)))" by simp
      then show ?thesis using minus_not_in_zfill by blast
    qed
  next
    case a: False
    show ?thesis
    proof (cases "0 \<le> b")
      case True
      with a eq have "CHR ''-'' # zfill 3 (str_nat (nat (- a))) = zfill 4 (str_nat (nat b))"
        by (simp add: format_int04_def)
      then have "CHR ''-'' \<in> set (zfill 4 (str_nat (nat b)))"
        by (metis list.set_intros(1))
      then show ?thesis using minus_not_in_zfill by blast
    next
      case False
      with a eq have "zfill 3 (str_nat (nat (- a))) = zfill 3 (str_nat (nat (- b)))"
        by (simp add: format_int04_def)
      then have "digits_value (zfill 3 (str_nat (nat (- a)))) =
                 digits_value (zfill 3 (str_nat (nat (- b))))"
        by simp
      then have "nat (- a) = nat (- b)" by (simp only: digits_value_zfill)
      with a False show ?thesis by simp
    qed
  qed
next
  assume "a = b"
  then show "format_int04 a = format_int04 b" by simp
qed

lemma nth_filter_upt_fixed:
  assumes "j < length (filter P [0..<n])"
  shows "filter P [0..<n] ! j = j \<longleftrightarrow> (\<forall>i<filter P [0..<n] ! j. P i)"
proof -
  let ?ps = "filter P [0..<n]"
  define m where "m = ?ps ! j"
  have "m \<in> set ?ps" unfolding m_def using assms by (rule nth_mem)
  then have m: "m < n" "P m" by simp_all
  have "[0..<n] = [0..<m] @ [m..<n]"
    using m(1) by (metis le_add_diff_inverse less_imp_le_nat upt_add_eq_append zero_le)
  moreover have "[m..<n] = m # [Suc m..<n]"
    using m(1) by (rule upt_conv_Cons)
  ultimately have split: "?ps = filter P [0..<m] @ m # filter P [Suc m..<n]"
    using m(2) by simp
  have at: "?ps ! length (filter P [0..<m]) = m"
    unfolding split by (simp add: nth_append)
  have lt: "length (filter P [0..<m]) < length ?ps"
    unfolding split by simp
  have "distinct ?ps" by simp
  then have j: "j = length (filter P [0..<m])"
    using at lt assms m_def by (metis nth_eq_iff_index_eq)
  have "length (filter P [0..<m]) = m \<longleftrightarrow> (\<forall>i<m. P i)"
  proof
    assume len: "length (filter P [0..<m]) = m"
    have "length (filter P [0..<m]) + length (filter (\<lambda>i. \<not> P i) [0..<m]) = length [0..<m]"
      by (rule sum_length_filter_compl)
    with len have "filter (\<lambda>i. \<not> P i) [0..<m] = []" by simp
    then show "\<forall>i<m. P i" by (simp add: filter_empty_conv)
  next
    assume "\<forall>i<m. P i"
    then have "filter P [0..<m] = [0..<m]" by (simp add: filter_id_conv)
    then show "length (filter P [0..<m]) = m" by simp
  qed
  then show ?thesis unfolding m_def [symmetric] using j by auto
qed

lemma default_index_nth:
  "i < length col \<Longrightarrow> default_index col ! i = (SInt (int i), col ! i)"
  by (simp add: default_index_def)

lemma default_index_cells: "map snd (default_index col) = col"
  by (simp add: default_index_def)

section \<open>The surviving rows\<close>

lemma survivors_bound: "i \<in> set (survivors df) \<Longrightarrow> i < length (frame_rows df)"
  by (simp add: survivors_def)


lemma survivors_default_index:
  "survivors \<lparr> frame_rows = default_index col, series_cast = f \<rparr> =
     filter (first_occurrence col) [0..<length col]"
  by (simp add: survivors_def default_index_cells) (simp add: default_index_def)

lemma default_index_labels:
  "i < length col \<Longrightarrow> fst (default_index col ! i) = SInt (int i)"
  by (simp add: default_index_nth)

lemma example_labels:
  "i \<in> set (survivors \<lparr> frame_rows = default_index col, series_cast = f \<rparr>) \<Longrightarrow>
   fst (frame_rows \<lparr> frame_rows = default_index col, series_cast = f \<rparr> ! i) = SInt (int i)"
  by (simp add: survivors_default_index default_index_labels)


section \<open>Further facts for the examples\<close>

lemma exists_labelled: "path_exists (labelled_world g rows) ''data/addresses.csv''"
  by (simp add: labelled_world_def example_world_def)

lemma load_labelled:
  "load_input (labelled_world g rows) ''data/addresses.csv'' =
     Inr (Some \<lparr> frame_rows = rows, series_cast = (\<lambda>c. c) \<rparr>)"
  by (simp add: load_input_def labelled_world_def example_world_def splitext_ext_def
        basename_of_def lower_def lower_char_def)

lemma map_Inr_ids:
  assumes "map (\<lambda>r. Inr (f r) :: exn + string) rs = map Inr ids"
  shows "map f rs = ids"
proof -
  have "map (Inr :: string \<Rightarrow> exn + string) (map f rs) = map Inr ids"
    unfolding map_map comp_def by (rule assms)
  then show ?thesis by (simp only: inj_map_eq_map [OF inj_Inr])
qed

lemma map_two: "length xs = 2 \<Longrightarrow> map f xs = [f (xs ! 0), f (xs ! 1)]"
  by (auto simp: length_Suc_conv numeral_2_eq_2)

section \<open>One iteration and the output stage\<close>


lemma candidate_inject:
  "candidate a p la lo = candidate a' p' la' lo' \<longleftrightarrow> a = a' \<and> p = p' \<and> la = la' \<and> lo = lo'"
  by (simp add: candidate_def)



lemma save_report_unsupported:
  assumes "makedirs w (dirname_of output_path) = None"
    and "\<not> endswith output_path ''.xlsx''" and "\<not> endswith output_path ''.csv''"
  shows "save_report w output_path rows calls =
           \<lparr> raised = None,
             printed = [cross_mark @ '' Unsupported output format. Use .csv or .xlsx''],
             log_rows = rows, saved = None, geocoder_calls = calls \<rparr>"
  using assms by (simp add: save_report_def)

lemma save_report_no_directory:
  assumes "makedirs w (dirname_of output_path) = Some e"
  shows "save_report w output_path rows calls =
           \<lparr> raised = Some e, printed = [], log_rows = rows, saved = None,
             geocoder_calls = calls \<rparr>"
  using assms by (simp add: save_report_def)

section \<open>The batch runner: rows and identifiers\<close>



text \<open>
  Claim C2, as stated, fails. The identifier is built from \<^verbatim>\<open>idx\<close>, the index label that
  \<^verbatim>\<open>iterrows\<close> yields, and neither \<^verbatim>\<open>dropna\<close> nor \<^verbatim>\<open>drop_duplicates\<close> renumbers the rows.
  When the first row of the input is empty, the first surviving address gets
  \<^verbatim>\<open>TC_0002\<close>, not \<^verbatim>\<open>TC_0001\<close>.
\<close>

theorem test_case_id_not_sequential:
  "map test_case_id
     (log_rows (run_bulk_geocode (example_world complete_geocoder [SNaN, SStr ''123 Main St''])
                  ''data/addresses.csv'' ''result/report.csv'')) = [''TC_0002'']
   \<and> map test_case_id
     (log_rows (run_bulk_geocode (example_world complete_geocoder [SNaN, SStr ''123 Main St''])
                  ''data/addresses.csv'' ''result/report.csv'')) \<noteq> [''TC_0001'']"
proof -
  let ?w = "example_world complete_geocoder [SNaN, SStr ''123 Main St'']"
  let ?df = "\<lparr> frame_rows = default_index [SNaN, SStr ''123 Main St''], series_cast = (\<lambda>c. c) \<rparr>"
  have surv: "survivors ?df = [1]"
    by (simp add: survivors_default_index first_occurrence_list_all py_eq_def upt_rec)
  have labels: "\<forall>i\<in>set (survivors ?df). numeric_label (fst (frame_rows ?df ! i))"
    using example_labels [of _ "[SNaN, SStr ''123 Main St'']" "\<lambda>c. c"]
    by (simp add: numeric_label_def)
  obtain rs calls where
    run: "run_bulk_geocode ?w ''data/addresses.csv'' ''result/report.csv'' =
            save_report ?w ''result/report.csv'' rs calls"
    and ids: "map (\<lambda>r. Inr (test_case_id r)) rs =
                map (\<lambda>i. format_test_case_id (format_float ?w) (fst (frame_rows ?df ! i)))
                  (survivors ?df)"
    using run_loaded [OF exists_example [of complete_geocoder] load_example labels] by blast
  have id: "format_test_case_id (\<lambda>x. []) (SInt 1) = Inr ''TC_0002''"
    by code_simp
  have "map (\<lambda>i. format_test_case_id (format_float ?w) (fst (frame_rows ?df ! i))) (survivors ?df)
        = map Inr [''TC_0002'']"
    unfolding surv using id by (simp add: default_index_def example_world_def upt_rec)
  then have "map test_case_id rs = [''TC_0002'']"
    using ids map_Inr_ids by metis
  then show ?thesis
    unfolding run save_report_log_rows by simp
qed

text \<open>
  Claim C2, amended. Let the input be loaded and let the rows that remain after cleaning
  carry integer index labels. Then the run builds one row for each of them, and the \<open>j\<close>-th
  of them (from 0), whose label in the loaded frame is \<open>l\<close>, gets the identifier \<^verbatim>\<open>TC_\<close>
  followed by \<open>l + 1\<close> padded with zeros to four digits: the labels are not renumbered. So
  the \<open>k\<close>-th surviving address gets \<^verbatim>\<open>TC_\<close> followed by \<open>k\<close> padded to four digits exactly
  when its label is \<open>k - 1\<close>; under the default index \<open>0, 1, 2, \<dots>\<close> that is exactly when no
  row before it was dropped as empty or duplicate.
\<close>

theorem test_case_id_from_index_label:
  assumes "path_exists w input_path" and "load_input w input_path = Inr (Some df)"
    and "\<forall>i\<in>set (survivors df). \<exists>l. fst (frame_rows df ! i) = SInt l"
  shows "length (log_rows (run_bulk_geocode w input_path output_path)) = length (survivors df)
    \<and> (\<forall>j<length (survivors df). \<forall>l. fst (frame_rows df ! (survivors df ! j)) = SInt l \<longrightarrow>
          test_case_id (log_rows (run_bulk_geocode w input_path output_path) ! j)
            = ''TC_'' @ format_int04 (l + 1)
          \<and> (test_case_id (log_rows (run_bulk_geocode w input_path output_path) ! j)
               = make_test_case_id j \<longleftrightarrow> l = int j))
    \<and> (frame_rows df = default_index (map snd (frame_rows df)) \<longrightarrow>
          (\<forall>j<length (survivors df).
             test_case_id (log_rows (run_bulk_geocode w input_path output_path) ! j)
               = make_test_case_id j
             \<longleftrightarrow> (\<forall>i<survivors df ! j. first_occurrence (map snd (frame_rows df)) i)))"
proof -
  let ?R = "run_bulk_geocode w input_path output_path"
  have numeric: "\<forall>i\<in>set (survivors df). numeric_label (fst (frame_rows df ! i))"
    using assms(3) by (auto simp: numeric_label_def)
  obtain rs calls where
    run: "?R = save_report w output_path rs calls"
    and ids: "map (\<lambda>r. Inr (test_case_id r)) rs =
                map (\<lambda>i. format_test_case_id (format_float w) (fst (frame_rows df ! i)))
                  (survivors df)"
    using run_loaded [OF assms(1,2) numeric, of output_path] by blast
  have rows: "log_rows ?R = rs" unfolding run by (rule save_report_log_rows)
  have len: "length rs = length (survivors df)"
    using ids by (metis length_map)
  have id_at: "test_case_id (rs ! j) = ''TC_'' @ format_int04 (l + 1)"
    if "j < length (survivors df)" and "fst (frame_rows df ! (survivors df ! j)) = SInt l" for j l
  proof -
    have "map (\<lambda>r. Inr (test_case_id r)) rs ! j =
          map (\<lambda>i. format_test_case_id (format_float w) (fst (frame_rows df ! i))) (survivors df) ! j"
      using ids by simp
    then have "(Inr (test_case_id (rs ! j)) :: exn + string) =
          format_test_case_id (format_float w) (fst (frame_rows df ! (survivors df ! j)))"
      using that(1) len by simp
    then show ?thesis using that(2) by simp
  qed
  have make: "make_test_case_id j = ''TC_'' @ format_int04 (int j + 1)" for j
    using format_nat_label [of undefined j] by simp
  have iff: "test_case_id (rs ! j) = make_test_case_id j \<longleftrightarrow> l = int j"
    if "j < length (survivors df)" and "fst (frame_rows df ! (survivors df ! j)) = SInt l" for j l
    unfolding id_at [OF that] make by (simp add: format_int04_inject)
  have default: "test_case_id (rs ! j) = make_test_case_id j
      \<longleftrightarrow> (\<forall>i<survivors df ! j. first_occurrence (map snd (frame_rows df)) i)"
    if dflt: "frame_rows df = default_index (map snd (frame_rows df))"
      and j: "j < length (survivors df)" for j
  proof -
    let ?P = "first_occurrence (map snd (frame_rows df))"
    have surv: "survivors df = filter ?P [0..<length (frame_rows df)]"
      by (simp add: survivors_def)
    have "survivors df ! j \<in> set (survivors df)" using j by (rule nth_mem)
    then have bound: "survivors df ! j < length (map snd (frame_rows df))"
      using survivors_bound by simp
    have "fst (default_index (map snd (frame_rows df)) ! (survivors df ! j)) =
          SInt (int (survivors df ! j))"
      using bound by (rule default_index_labels)
    then have label: "fst (frame_rows df ! (survivors df ! j)) = SInt (int (survivors df ! j))"
      using dflt by simp
    have "test_case_id (rs ! j) = make_test_case_id j \<longleftrightarrow> int (survivors df ! j) = int j"
      using j label by (rule iff)
    also have "\<dots> \<longleftrightarrow> survivors df ! j = j" by simp
    also have "\<dots> \<longleftrightarrow> (\<forall>i<survivors df ! j. ?P i)"
      using j unfolding surv by (rule nth_filter_upt_fixed)
    finally show ?thesis .
  qed
  show ?thesis
    unfolding rows using len id_at iff default by blast
qed

text \<open>
  A frame whose two rows carry the labels 5 and 7, and a frame under the default index whose
  second row is a duplicate: the first survivor keeps the sequential identifier, the second
  does not.
\<close>

theorem test_case_id_from_index_label_witness:
  "map test_case_id
     (log_rows (run_bulk_geocode
                  (labelled_world complete_geocoder
                     [(SInt 5, SStr ''123 Main St''), (SInt 7, SStr ''9 Pyay Rd'')])
                  ''data/addresses.csv'' ''result/report.csv'')) = [''TC_0006'', ''TC_0008'']
   \<and> map test_case_id
     (log_rows (run_bulk_geocode
                  (example_world complete_geocoder
                     [SStr ''123 Main St'', SStr ''123 Main St'', SStr ''9 Pyay Rd''])
                  ''data/addresses.csv'' ''result/report.csv'')) = [''TC_0001'', ''TC_0003'']"
proof -
  let ?rows = "[(SInt 5, SStr ''123 Main St''), (SInt 7, SStr ''9 Pyay Rd'')]"
  let ?df = "\<lparr> frame_rows = ?rows, series_cast = (\<lambda>c. c) \<rparr>"
  let ?R = "run_bulk_geocode (labelled_world complete_geocoder ?rows)
              ''data/addresses.csv'' ''result/report.csv''"
  have surv: "survivors ?df = [0, 1]"
    by (simp add: survivors_def first_occurrence_list_all py_eq_def upt_rec)
  have labels: "\<forall>i\<in>set (survivors ?df). \<exists>l. fst (frame_rows ?df ! i) = SInt l"
    unfolding surv by simp
  note first = test_case_id_from_index_label
                 [OF exists_labelled [of complete_geocoder ?rows] load_labelled labels,
                  where output_path = "''result/report.csv''"]
  have len: "length (log_rows ?R) = 2"
    using first unfolding surv by simp
  have at: "\<forall>j<length (survivors ?df). \<forall>l. fst (frame_rows ?df ! (survivors ?df ! j)) = SInt l \<longrightarrow>
              test_case_id (log_rows ?R ! j) = ''TC_'' @ format_int04 (l + 1)"
    using first by blast
  have "test_case_id (log_rows ?R ! 0) = ''TC_'' @ format_int04 (5 + 1)"
    using at [rule_format, of 0 5] unfolding surv by simp
  moreover have "test_case_id (log_rows ?R ! 1) = ''TC_'' @ format_int04 (7 + 1)"
    using at [rule_format, of 1 7] unfolding surv by simp
  moreover have "''TC_'' @ format_int04 (5 + 1) = ''TC_0006''" by code_simp
  moreover have "''TC_'' @ format_int04 (7 + 1) = ''TC_0008''" by code_simp
  ultimately have one: "map test_case_id (log_rows ?R) = [''TC_0006'', ''TC_0008'']"
    using map_two [OF len, of test_case_id] by simp

  let ?col = "[SStr ''123 Main St'', SStr ''123 Main St'', SStr ''9 Pyay Rd'']"
  let ?dg = "\<lparr> frame_rows = default_index ?col, series_cast = (\<lambda>c. c) \<rparr>"
  let ?S = "run_bulk_geocode (example_world complete_geocoder ?col)
              ''data/addresses.csv'' ''result/report.csv''"
  have survg: "survivors ?dg = [0, 2]"
    by (simp add: survivors_default_index first_occurrence_list_all py_eq_def upt_rec)
  have labelsg: "\<forall>i\<in>set (survivors ?dg). \<exists>l. fst (frame_rows ?dg ! i) = SInt l"
    using example_labels [of _ ?col "\<lambda>c. c"] by blast
  note second = test_case_id_from_index_label
                  [OF exists_example [of complete_geocoder ?col] load_example labelsg,
                   where output_path = "''result/report.csv''"]
  have leng: "length (log_rows ?S) = 2"
    using second unfolding survg by simp
  have dflt: "frame_rows ?dg = default_index (map snd (frame_rows ?dg))"
    by (simp add: default_index_cells)
  have fixed: "\<forall>j<length (survivors ?dg).
      test_case_id (log_rows ?S ! j) = make_test_case_id j
        \<longleftrightarrow> (\<forall>i<survivors ?dg ! j. first_occurrence (map snd (frame_rows ?dg)) i)"
    using second dflt by blast
  have atg: "\<forall>j<length (survivors ?dg). \<forall>l. fst (frame_rows ?dg ! (survivors ?dg ! j)) = SInt l \<longrightarrow>
              test_case_id (log_rows ?S ! j) = ''TC_'' @ format_int04 (l + 1)"
    using second by blast
  have "test_case_id (log_rows ?S ! 0) = make_test_case_id 0"
    using fixed [rule_format, of 0] unfolding survg by simp
  moreover have "make_test_case_id 0 = ''TC_0001''" by code_simp
  moreover have "test_case_id (log_rows ?S ! 1) = ''TC_'' @ format_int04 (2 + 1)"
    using atg [rule_format, of 1 2] unfolding survg
    by (simp add: default_index_def upt_rec)
  moreover have "''TC_'' @ format_int04 (2 + 1) = ''TC_0003''" by code_simp
  ultimately have two: "map test_case_id (log_rows ?S) = [''TC_0001'', ''TC_0003'']"
    using map_two [OF leng, of test_case_id] by simp
  from one two show ?thesis by simp
qed

text \<open>
  Claim C8, as stated, fails for the second failure of the lines it cites (150 to 157). The
  suffix of the output path is tested after the loop: with the output \<^verbatim>\<open>result/report.txt\<close>
  the address has been sent to the geocoder and its row built before the run prints that the
  output format is unsupported, and no report is written.
\<close>

theorem unsupported_output_after_rows:
  "raised (run_bulk_geocode (example_world complete_geocoder [SStr ''123 Main St''])
             ''data/addresses.csv'' ''result/report.txt'') = None
   \<and> printed (run_bulk_geocode (example_world complete_geocoder [SStr ''123 Main St''])
             ''data/addresses.csv'' ''result/report.txt'')
       = [cross_mark @ '' Unsupported output format. Use .csv or .xlsx'']
   \<and> saved (run_bulk_geocode (example_world complete_geocoder [SStr ''123 Main St''])
             ''data/addresses.csv'' ''result/report.txt'') = None
   \<and> map input_address
       (log_rows (run_bulk_geocode (example_world complete_geocoder [SStr ''123 Main St''])
                    ''data/addresses.csv'' ''result/report.txt'')) = [SStr ''123 Main St'']
   \<and> geocoder_calls (run_bulk_geocode (example_world complete_geocoder [SStr ''123 Main St''])
             ''data/addresses.csv'' ''result/report.txt'') = [SStr ''123 Main St'']"
proof -
  let ?w = "example_world complete_geocoder [SStr ''123 Main St'']"
  let ?df = "\<lparr> frame_rows = default_index [SStr ''123 Main St''], series_cast = (\<lambda>c. c) \<rparr>"
  have surv: "survivors ?df = [0]"
    by (simp add: survivors_default_index first_occurrence_list_all py_eq_def upt_rec)
  have labels: "\<forall>i\<in>set (survivors ?df). numeric_label (fst (frame_rows ?df ! i))"
    using example_labels [of _ "[SStr ''123 Main St'']" "\<lambda>c. c"]
    by (simp add: numeric_label_def)
  obtain rs calls where
    run: "run_bulk_geocode ?w ''data/addresses.csv'' ''result/report.txt'' =
            save_report ?w ''result/report.txt'' rs calls"
    and addresses: "map input_address rs =
            map (\<lambda>i. series_cast ?df (snd (frame_rows ?df ! i))) (survivors ?df)"
    and calls: "calls = filter (\<lambda>a. truthy_scalar a \<and> \<not> isna a)
                  (map (\<lambda>i. series_cast ?df (snd (frame_rows ?df ! i))) (survivors ?df))"
    using run_loaded [OF exists_example [of complete_geocoder] load_example labels] by blast
  have out: "makedirs ?w (dirname_of ''result/report.txt'') = None"
    "\<not> endswith ''result/report.txt'' ''.xlsx''" "\<not> endswith ''result/report.txt'' ''.csv''"
    by (simp_all add: example_world_def endswith_def)
  have cells: "map (\<lambda>i. series_cast ?df (snd (frame_rows ?df ! i))) (survivors ?df)
                 = [SStr ''123 Main St'']"
    unfolding surv by (simp add: default_index_def)
  show ?thesis
    unfolding run save_report_unsupported [OF out]
    using addresses calls cells by simp
qed

text \<open>
  Claim C8, amended. On the side of the input the run ends before any row is built and
  before the geocoder is called, and writes no report: when the input path does not exist
  (one line is printed), when the extension of the input is none of \<^verbatim>\<open>.csv\<close>, \<^verbatim>\<open>.xlsx\<close>,
  \<^verbatim>\<open>.xls\<close> (a \<^verbatim>\<open>ValueError\<close>), and for every exception raised while the input is loaded and
  cleaned. On the side of the output the failure comes after the loop: when the input is
  loaded and every remaining row has a numeric label, all rows have been built and the
  geocoder has been called for every usable address, whatever the output path; then an
  output path that ends in neither \<^verbatim>\<open>.xlsx\<close> nor \<^verbatim>\<open>.csv\<close> makes the run print that the format
  is unsupported, an exception of \<^verbatim>\<open>os.makedirs\<close> leaves the run, and in both cases no
  report is written.
\<close>

theorem whole_run_failures:
  "(\<not> path_exists w input_path \<longrightarrow>
      run_bulk_geocode w input_path output_path =
        \<lparr> raised = None,
          printed = [cross_mark @ '' Error: File not found '' @ em_dash @ '' '' @ input_path],
          log_rows = [], saved = None, geocoder_calls = [] \<rparr>)
   \<and> (path_exists w input_path
        \<and> lower w (splitext_ext input_path) \<notin> set [''.csv'', ''.xlsx'', ''.xls''] \<longrightarrow>
      (\<exists>m. run_bulk_geocode w input_path output_path =
        \<lparr> raised = Some (Exn ''ValueError'' m), printed = [],
          log_rows = [], saved = None, geocoder_calls = [] \<rparr>))
   \<and> (\<forall>e. path_exists w input_path \<and> bind_exn (load_input w input_path) clean = Inl e \<longrightarrow>
      run_bulk_geocode w input_path output_path =
        \<lparr> raised = Some e, printed = [], log_rows = [], saved = None, geocoder_calls = [] \<rparr>)
   \<and> (\<forall>df. path_exists w input_path \<and> load_input w input_path = Inr (Some df)
          \<and> (\<forall>i\<in>set (survivors df). numeric_label (fst (frame_rows df ! i))) \<longrightarrow>
        map input_address (log_rows (run_bulk_geocode w input_path output_path))
          = map (\<lambda>i. series_cast df (snd (frame_rows df ! i))) (survivors df)
        \<and> geocoder_calls (run_bulk_geocode w input_path output_path)
          = filter (\<lambda>a. truthy_scalar a \<and> \<not> isna a)
              (map (\<lambda>i. series_cast df (snd (frame_rows df ! i))) (survivors df))
        \<and> (makedirs w (dirname_of output_path) = None
            \<and> \<not> endswith output_path ''.xlsx'' \<and> \<not> endswith output_path ''.csv'' \<longrightarrow>
              raised (run_bulk_geocode w input_path output_path) = None
              \<and> printed (run_bulk_geocode w input_path output_path)
                  = [cross_mark @ '' Unsupported output format. Use .csv or .xlsx'']
              \<and> saved (run_bulk_geocode w input_path output_path) = None)
        \<and> (\<forall>e. makedirs w (dirname_of output_path) = Some e \<longrightarrow>
              raised (run_bulk_geocode w input_path output_path) = Some e
              \<and> printed (run_bulk_geocode w input_path output_path) = []
              \<and> saved (run_bulk_geocode w input_path output_path) = None))"
proof -
  have input_side:
    "(\<not> path_exists w input_path \<longrightarrow>
      run_bulk_geocode w input_path output_path =
        \<lparr> raised = None,
          printed = [cross_mark @ '' Error: File not found '' @ em_dash @ '' '' @ input_path],
          log_rows = [], saved = None, geocoder_calls = [] \<rparr>)
   \<and> (path_exists w input_path
        \<and> lower w (splitext_ext input_path) \<notin> set [''.csv'', ''.xlsx'', ''.xls''] \<longrightarrow>
      (\<exists>m. run_bulk_geocode w input_path output_path =
        \<lparr> raised = Some (Exn ''ValueError'' m), printed = [],
          log_rows = [], saved = None, geocoder_calls = [] \<rparr>))
   \<and> (\<forall>e. path_exists w input_path \<and> bind_exn (load_input w input_path) clean = Inl e \<longrightarrow>
      run_bulk_geocode w input_path output_path =
        \<lparr> raised = Some e, printed = [], log_rows = [], saved = None, geocoder_calls = [] \<rparr>)"
    by (auto simp: run_bulk_geocode_def load_input_def aborted_def bind_exn_def Let_def)
  have output_side:
    "map input_address (log_rows (run_bulk_geocode w input_path output_path))
          = map (\<lambda>i. series_cast df (snd (frame_rows df ! i))) (survivors df)
        \<and> geocoder_calls (run_bulk_geocode w input_path output_path)
          = filter (\<lambda>a. truthy_scalar a \<and> \<not> isna a)
              (map (\<lambda>i. series_cast df (snd (frame_rows df ! i))) (survivors df))
        \<and> (makedirs w (dirname_of output_path) = None
            \<and> \<not> endswith output_path ''.xlsx'' \<and> \<not> endswith output_path ''.csv'' \<longrightarrow>
              raised (run_bulk_geocode w input_path output_path) = None
              \<and> printed (run_bulk_geocode w input_path output_path)
                  = [cross_mark @ '' Unsupported output format. Use .csv or .xlsx'']
              \<and> saved (run_bulk_geocode w input_path output_path) = None)
        \<and> (\<forall>e. makedirs w (dirname_of output_path) = Some e \<longrightarrow>
              raised (run_bulk_geocode w input_path output_path) = Some e
              \<and> printed (run_bulk_geocode w input_path output_path) = []
              \<and> saved (run_bulk_geocode w input_path output_path) = None)"
    if loaded: "path_exists w input_path \<and> load_input w input_path = Inr (Some df)
          \<and> (\<forall>i\<in>set (survivors df). numeric_label (fst (frame_rows df ! i)))" for df
  proof -
    obtain rs calls where
      run: "run_bulk_geocode w input_path output_path = save_report w output_path rs calls"
      and addresses: "map input_address rs =
              map (\<lambda>i. series_cast df (snd (frame_rows df ! i))) (survivors df)"
      and calls: "calls = filter (\<lambda>a. truthy_scalar a \<and> \<not> isna a)
                    (map (\<lambda>i. series_cast df (snd (frame_rows df ! i))) (survivors df))"
      using run_loaded [of w input_path df output_path] loaded by blast
    show ?thesis
      unfolding run
      using addresses calls
      by (simp add: save_report_log_rows save_report_calls save_report_unsupported
            save_report_no_directory)
  qed
  from input_side output_side show ?thesis by blast
qed

text \<open>
  A path that does not exist, an existing file with the extension \<^verbatim>\<open>.txt\<close>, and an output
  path with the extension \<^verbatim>\<open>.txt\<close>.
\<close>

theorem whole_run_failures_witness:
  "run_bulk_geocode (example_world complete_geocoder [SStr ''X'']) ''data/missing.csv'' ''result/report.csv''
     = \<lparr> raised = None,
         printed = [cross_mark @ '' Error: File not found '' @ em_dash @ '' data/missing.csv''],
         log_rows = [], saved = None, geocoder_calls = [] \<rparr>
   \<and> log_rows (run_bulk_geocode ((example_world complete_geocoder [SStr ''X''])\<lparr>path_exists := (\<lambda>p. True)\<rparr>)
                 ''data/addresses.txt'' ''result/report.csv'') = []
   \<and> saved (run_bulk_geocode ((example_world complete_geocoder [SStr ''X''])\<lparr>path_exists := (\<lambda>p. True)\<rparr>)
                 ''data/addresses.txt'' ''result/report.csv'') = None
   \<and> raised (run_bulk_geocode ((example_world complete_geocoder [SStr ''X''])\<lparr>path_exists := (\<lambda>p. True)\<rparr>)
                 ''data/addresses.txt'' ''result/report.csv'') =
        Some (Exn ''ValueError'' (cross_mark @
          '' Unsupported input file format: .txt. Use .csv, .xlsx, or .xls.''))
   \<and> map input_address
       (log_rows (run_bulk_geocode (example_world complete_geocoder [SStr ''X''])
                    ''data/addresses.csv'' ''result/report.txt'')) = [SStr ''X'']
   \<and> geocoder_calls (run_bulk_geocode (example_world complete_geocoder [SStr ''X''])
                    ''data/addresses.csv'' ''result/report.txt'') = [SStr ''X'']
   \<and> printed (run_bulk_geocode (example_world complete_geocoder [SStr ''X''])
                    ''data/addresses.csv'' ''result/report.txt'')
        = [cross_mark @ '' Unsupported output format. Use .csv or .xlsx'']
   \<and> saved (run_bulk_geocode (example_world complete_geocoder [SStr ''X''])
                    ''data/addresses.csv'' ''result/report.txt'') = None"
proof -
  let ?w = "example_world complete_geocoder [SStr ''X'']"
  let ?v = "(example_world complete_geocoder [SStr ''X''])\<lparr>path_exists := (\<lambda>p. True)\<rparr>"
  let ?df = "\<lparr> frame_rows = default_index [SStr ''X''], series_cast = (\<lambda>c. c) \<rparr>"
  have ext: "lower ?v (splitext_ext ''data/addresses.txt'') = ''.txt''"
    by (simp add: splitext_ext_def basename_of_def lower_def lower_char_def)
  have load: "load_input ?v ''data/addresses.txt'' =
        Inl (Exn ''ValueError'' (cross_mark @
          '' Unsupported input file format: .txt. Use .csv, .xlsx, or .xls.''))"
    unfolding load_input_def ext by simp
  have input_side:
    "run_bulk_geocode ?w ''data/missing.csv'' ''result/report.csv''
       = \<lparr> raised = None,
           printed = [cross_mark @ '' Error: File not found '' @ em_dash @ '' data/missing.csv''],
           log_rows = [], saved = None, geocoder_calls = [] \<rparr>
     \<and> log_rows (run_bulk_geocode ?v ''data/addresses.txt'' ''result/report.csv'') = []
     \<and> saved (run_bulk_geocode ?v ''data/addresses.txt'' ''result/report.csv'') = None
     \<and> raised (run_bulk_geocode ?v ''data/addresses.txt'' ''result/report.csv'') =
          Some (Exn ''ValueError'' (cross_mark @
            '' Unsupported input file format: .txt. Use .csv, .xlsx, or .xls.''))"
    using whole_run_failures [of ?w "''data/missing.csv''" "''result/report.csv''"]
          whole_run_failures [of ?v "''data/addresses.txt''" "''result/report.csv''"]
    unfolding load by (simp add: example_world_def bind_exn_def)
  have surv: "survivors ?df = [0]"
    by (simp add: survivors_default_index first_occurrence_list_all py_eq_def upt_rec)
  have labels: "\<forall>i\<in>set (survivors ?df). numeric_label (fst (frame_rows ?df ! i))"
    using example_labels [of _ "[SStr ''X'']" "\<lambda>c. c"] by (simp add: numeric_label_def)
  have out: "makedirs ?w (dirname_of ''result/report.txt'') = None
      \<and> \<not> endswith ''result/report.txt'' ''.xlsx'' \<and> \<not> endswith ''result/report.txt'' ''.csv''"
    by (simp add: example_world_def endswith_def)
  have cells: "map (\<lambda>i. series_cast ?df (snd (frame_rows ?df ! i))) (survivors ?df) = [SStr ''X'']"
    unfolding surv by (simp add: default_index_def)
  have loaded: "path_exists ?w ''data/addresses.csv''
      \<and> load_input ?w ''data/addresses.csv'' = Inr (Some ?df)
      \<and> (\<forall>i\<in>set (survivors ?df). numeric_label (fst (frame_rows ?df ! i)))"
    using exists_example load_example labels by blast
  have output_side:
    "map input_address (log_rows (run_bulk_geocode ?w ''data/addresses.csv'' ''result/report.txt''))
       = map (\<lambda>i. series_cast ?df (snd (frame_rows ?df ! i))) (survivors ?df)
     \<and> geocoder_calls (run_bulk_geocode ?w ''data/addresses.csv'' ''result/report.txt'')
       = filter (\<lambda>a. truthy_scalar a \<and> \<not> isna a)
           (map (\<lambda>i. series_cast ?df (snd (frame_rows ?df ! i))) (survivors ?df))
     \<and> printed (run_bulk_geocode ?w ''data/addresses.csv'' ''result/report.txt'')
        = [cross_mark @ '' Unsupported output format. Use .csv or .xlsx'']
     \<and> saved (run_bulk_geocode ?w ''data/addresses.csv'' ''result/report.txt'') = None"
    using whole_run_failures [of ?w "''data/addresses.csv''" "''result/report.txt''"] loaded out
    by blast
  show ?thesis
    using input_side output_side unfolding cells by simp
qed

section \<open>The resolver and the classifier\<close>

text \<open>
  Claim C5. For the empty string, for \<^verbatim>\<open>None\<close> and for \<^verbatim>\<open>nan\<close> as the address,
  \<^verbatim>\<open>get_location\<close> returns \<^verbatim>\<open>(None, "Empty input")\<close> whatever the geocoder is, and the log
  of calls to the geocoder is left as it was: the geocoder is not invoked.
\<close>

theorem empty_address_never_geocoded:
  "get_location g (SStr []) calls = ((PNone, Some ''Empty input''), calls)
   \<and> get_location g SNone calls = ((PNone, Some ''Empty input''), calls)
   \<and> get_location g SNaN calls = ((PNone, Some ''Empty input''), calls)"
  by (simp add: get_location_empty)

text \<open>
  The same at a geocoder that answers every address; a usable address does reach it.
\<close>

theorem empty_address_never_geocoded_witness:
  "get_location complete_geocoder (SStr []) [] = ((PNone, Some ''Empty input''), [])
   \<and> get_location complete_geocoder SNone [] = ((PNone, Some ''Empty input''), [])
   \<and> get_location complete_geocoder SNaN [] = ((PNone, Some ''Empty input''), [])
   \<and> get_location complete_geocoder (SStr ''X'') [] \<noteq> ((PNone, Some ''Empty input''), [])"
  using empty_address_never_geocoded [of complete_geocoder "[]"]
  by (simp add: get_location_def get_location_try_def complete_geocoder_def bind_exn_def)

text \<open>
  Claim C6. For every address and every geocoder, \<^verbatim>\<open>get_location\<close> returns an outcome:
  \<^verbatim>\<open>None\<close> with a failure description, or a candidate with the four keys and no
  description. Whatever exception leaves the body of the \<^verbatim>\<open>try\<close> block becomes the
  outcome \<^verbatim>\<open>None\<close> with \<^verbatim>\<open>str(e)\<close> as description; in particular an exception raised by
  the geocoder does.
\<close>

theorem get_location_always_outcome:
  "((\<exists>m calls'. get_location g a calls = ((PNone, Some m), calls'))
    \<or> (\<exists>va vp vla vlo calls'. get_location g a calls = ((candidate va vp vla vlo, None), calls')))
   \<and> (\<forall>e. fst (get_location_try g a calls) = Inl e \<longrightarrow>
          fst (get_location g a calls) = (PNone, Some (exn_str e)))
   \<and> (\<forall>e. truthy_scalar a \<and> \<not> isna a \<and> g a = Raises e \<longrightarrow>
          get_location g a calls = ((PNone, Some (exn_str e)), calls @ [a]))"
proof (intro conjI allI impI)
  show "(\<exists>m calls'. get_location g a calls = ((PNone, Some m), calls'))
    \<or> (\<exists>va vp vla vlo calls'. get_location g a calls = ((candidate va vp vla vlo, None), calls'))"
    by (cases rule: get_location_cases [of g a calls]) blast+
next
  fix e assume "fst (get_location_try g a calls) = Inl e"
  then show "fst (get_location g a calls) = (PNone, Some (exn_str e))"
    by (cases "get_location_try g a calls") (simp add: get_location_def)
next
  fix e assume "truthy_scalar a \<and> \<not> isna a \<and> g a = Raises e"
  then show "get_location g a calls = ((PNone, Some (exn_str e)), calls @ [a])"
    by (simp add: get_location_raises)
qed

text \<open>
  A geocoder that raises, and one whose first candidate is the integer 5, so that
  \<^verbatim>\<open>first.get\<close> raises an \<^verbatim>\<open>AttributeError\<close> inside the body.
\<close>

theorem get_location_always_outcome_witness:
  "get_location (\<lambda>a. Raises (Exn ''KeyError'' ''bad key'')) (SStr ''123 Main St'') []
     = ((PNone, Some ''bad key''), [SStr ''123 Main St''])
   \<and> fst (get_location_try (\<lambda>a. Returns (PList [Scalar (SInt 5)])) (SStr ''123 Main St'') [])
     = Inl (Exn ''AttributeError'' (quoted ''int'' @ '' object has no attribute '' @ quoted ''get''))
   \<and> fst (get_location (\<lambda>a. Returns (PList [Scalar (SInt 5)])) (SStr ''123 Main St'') [])
     = (PNone, Some (quoted ''int'' @ '' object has no attribute '' @ quoted ''get''))"
proof -
  have body: "fst (get_location_try (\<lambda>a. Returns (PList [Scalar (SInt 5)])) (SStr ''123 Main St'') [])
     = Inl (Exn ''AttributeError'' (quoted ''int'' @ '' object has no attribute '' @ quoted ''get''))"
    by (simp add: get_location_try_def bind_exn_def)
  show ?thesis
    using get_location_always_outcome
            [of "\<lambda>a. Raises (Exn ''KeyError'' ''bad key'')" "SStr ''123 Main St''" "[]"]
          get_location_always_outcome
            [of "\<lambda>a. Returns (PList [Scalar (SInt 5)])" "SStr ''123 Main St''" "[]"]
          body
    by simp
qed

text \<open>
  Claim C3, as stated, fails: the description \<^verbatim>\<open>"ConnectionError: timeout"\<close> contains
  \<^verbatim>\<open>"Error"\<close>, so line 31 answers \<^verbatim>\<open>"Crash"\<close> before line 33 can cut at the colon.
\<close>

theorem connection_error_is_crash:
  "case_prod classify_error
     (fst (get_location (\<lambda>a. Raises (Exn ''ConnectionError'' ''ConnectionError: timeout''))
             (SStr ''123 Main St'') [])) = ''Crash''
   \<and> case_prod classify_error
     (fst (get_location (\<lambda>a. Raises (Exn ''ConnectionError'' ''ConnectionError: timeout''))
             (SStr ''123 Main St'') [])) \<noteq> ''ConnectionError''"
  by (simp add: get_location_def get_location_try_def classify_error_def)

text \<open>
  Claim C3, amended. When the geocoder raises for a usable address and the description
  \<^verbatim>\<open>str(e)\<close> is not empty, the classification of the outcome is \<^verbatim>\<open>"Crash"\<close> if the
  description contains \<^verbatim>\<open>"Traceback"\<close> or \<^verbatim>\<open>"Error"\<close>, and the text before its first colon
  otherwise.
\<close>

theorem classify_raised_failure:
  assumes "truthy_scalar a" and "\<not> isna a" and "g a = Raises e" and "exn_str e \<noteq> []"
  shows "case_prod classify_error (fst (get_location g a calls)) =
           (if str_contains ''Traceback'' (exn_str e) \<or> str_contains ''Error'' (exn_str e)
            then ''Crash''
            else takeWhile (\<lambda>c. c \<noteq> CHR '':'') (exn_str e))"
  using assms by (simp add: get_location_raises classify_error_def hd_split_on)

text \<open>
  Two descriptions, one on each side of the test.
\<close>

theorem classify_raised_failure_witness:
  "case_prod classify_error
     (fst (get_location (\<lambda>a. Raises (Exn ''TimeoutException'' ''Timeout: connection lost: retry''))
             (SStr ''123 Main St'') [])) = ''Timeout''
   \<and> case_prod classify_error
     (fst (get_location (\<lambda>a. Raises (Exn ''ValueError'' ''ValueError: bad address''))
             (SStr ''123 Main St'') [])) = ''Crash''"
  using classify_raised_failure [of "SStr ''123 Main St''"
          "\<lambda>a. Raises (Exn ''TimeoutException'' ''Timeout: connection lost: retry'')"
          "Exn ''TimeoutException'' ''Timeout: connection lost: retry''" "[]"]
        classify_raised_failure [of "SStr ''123 Main St''"
          "\<lambda>a. Raises (Exn ''ValueError'' ''ValueError: bad address'')"
          "Exn ''ValueError'' ''ValueError: bad address''" "[]"]
  by simp




text \<open>
  Claim C9, as stated, fails in its second half: the classifier does return the string
  \<^verbatim>\<open>"Wrong format"\<close> for an outcome of \<^verbatim>\<open>get_location\<close>, through line 33, when the geocoder
  raises an exception whose description is \<^verbatim>\<open>"Wrong format"\<close>.
\<close>

theorem wrong_format_label_reachable:
  "case_prod classify_error
     (fst (get_location (\<lambda>a. Raises (Exn ''Exception'' ''Wrong format''))
             (SStr ''123 Main St'') [])) = ''Wrong format''"
  by (simp add: get_location_def get_location_try_def classify_error_def)

text \<open>
  Claim C9, amended. The result of \<^verbatim>\<open>get_location\<close> is \<^verbatim>\<open>None\<close> or a dictionary with
  exactly the keys \<^verbatim>\<open>address\<close>, \<^verbatim>\<open>pcode\<close>, \<^verbatim>\<open>lat\<close>, \<^verbatim>\<open>log\<close>, so the test of line 36 never
  holds of it: without a failure description (one that is not empty) the classification is
  never \<^verbatim>\<open>"Wrong format"\<close>. The classifier returns that string for an outcome of
  \<^verbatim>\<open>get_location\<close> only through line 33: the description contains neither \<^verbatim>\<open>"Traceback"\<close>
  nor \<^verbatim>\<open>"Error"\<close> and its text before the first colon is \<^verbatim>\<open>"Wrong format"\<close>.
\<close>

theorem wrong_format_branch_unreachable:
  "\<exists>result error_msg calls'.
      get_location g a calls = ((result, error_msg), calls')
      \<and> (result = PNone \<or> (\<exists>va vp vla vlo.
            result = PDict [(''address'', va), (''pcode'', vp), (''lat'', vla), (''log'', vlo)]))
      \<and> (result = PNone \<or> is_dict result)
      \<and> (\<not> truthy_msg error_msg \<longrightarrow> classify_error result error_msg \<noteq> ''Wrong format'')
      \<and> (classify_error result error_msg = ''Wrong format'' \<longrightarrow>
            (\<exists>m. error_msg = Some m
               \<and> \<not> str_contains ''Traceback'' m \<and> \<not> str_contains ''Error'' m
               \<and> takeWhile (\<lambda>c. c \<noteq> CHR '':'') m = ''Wrong format''))"
proof (cases rule: get_location_cases [of g a calls])
  case (absent m calls')
  have "classify_error PNone (Some m) = ''Wrong format'' \<longrightarrow>
          \<not> str_contains ''Traceback'' m \<and> \<not> str_contains ''Error'' m
          \<and> takeWhile (\<lambda>c. c \<noteq> CHR '':'') m = ''Wrong format''"
    by (auto simp: classify_error_def hd_split_on split: if_splits)
  moreover have "\<not> truthy_msg (Some m) \<longrightarrow> classify_error PNone (Some m) \<noteq> ''Wrong format''"
    by (simp add: classify_error_def)
  ultimately show ?thesis using absent by simp
next
  case (found va vp vla vlo calls')
  have "classify_error (candidate va vp vla vlo) None \<noteq> ''Wrong format''"
    by (simp add: classify_error_def candidate_def)
  then show ?thesis using found by (simp add: candidate_def)
qed

text \<open>
  A geocoder whose exception starts with the label, and the complete candidate.
\<close>

theorem wrong_format_branch_unreachable_witness:
  "get_location (\<lambda>a. Raises (Exn ''Exception'' ''Wrong format: no fields''))
      (SStr ''123 Main St'') [] = ((PNone, Some ''Wrong format: no fields''), [SStr ''123 Main St''])
   \<and> classify_error PNone (Some ''Wrong format: no fields'') = ''Wrong format''
   \<and> takeWhile (\<lambda>c. c \<noteq> CHR '':'') ''Wrong format: no fields'' = ''Wrong format''
   \<and> (\<exists>result. fst (get_location complete_geocoder (SStr ''X'') []) = (result, None)
          \<and> is_dict result \<and> classify_error result None \<noteq> ''Wrong format'')"
proof -
  have g: "get_location (\<lambda>a. Raises (Exn ''Exception'' ''Wrong format: no fields''))
      (SStr ''123 Main St'') [] = ((PNone, Some ''Wrong format: no fields''), [SStr ''123 Main St''])"
    by (simp add: get_location_raises)
  have c: "classify_error PNone (Some ''Wrong format: no fields'') = ''Wrong format''"
    by (simp add: classify_error_def)
  have g2: "get_location complete_geocoder (SStr ''X'') [] =
          ((candidate (Scalar (SStr ''X'')) (Scalar (SStr ''11000'')) (Scalar (SFloat (84 / 5)))
              (Scalar (SFloat (961 / 10))), None), [SStr ''X''])"
    by (simp add: complete_geocoder_def get_location_def get_location_try_def
          bind_exn_def candidate_def dict_get_def)
  have "takeWhile (\<lambda>c. c \<noteq> CHR '':'') ''Wrong format: no fields'' = ''Wrong format''"
    using wrong_format_branch_unreachable
            [of "\<lambda>a. Raises (Exn ''Exception'' ''Wrong format: no fields'')" "SStr ''123 Main St''" "[]"]
    unfolding g using c by simp
  moreover have "\<exists>result. fst (get_location complete_geocoder (SStr ''X'') []) = (result, None)
          \<and> is_dict result \<and> classify_error result None \<noteq> ''Wrong format''"
    using wrong_format_branch_unreachable [of complete_geocoder "SStr ''X''" "[]"]
    unfolding g2 by (auto simp: candidate_def)
  ultimately show ?thesis using g c by simp
qed

section \<open>The labels of a row\<close>






end
